theory Spec2Isabelle
  imports Main "HOL-Library.Word"
begin

unbundle bit_operations_syntax

section \<open>The Minix file system checker \<^verbatim>\<open>mfsck.c\<close>\<close>

text \<open>
  A shallow embedding of \<^verbatim>\<open>src/elks/tools/mfsck/mfsck.c\<close>. The C globals are the
  fields of one state record; every C function is a state transformer that also says
  how the call ends. The build modelled is the host build: \<^verbatim>\<open>int\<close> and
  \<^verbatim>\<open>unsigned int\<close> have 32 bits, \<^verbatim>\<open>unsigned short\<close> 16, \<^verbatim>\<open>unsigned char\<close> 8.
  Values of type \<^verbatim>\<open>unsigned long\<close> (the macros \<^verbatim>\<open>INODES\<close>, \<^verbatim>\<open>ZONES\<close>, ...) are
  natural numbers; the one place where they can wrap is written out.
\<close>

subsection \<open>Constants\<close>

text \<open>
  \<^verbatim>\<open>MAX_DEPTH\<close> and \<^verbatim>\<open>ROOT_INO\<close> are defined in the source file; \<^verbatim>\<open>NAME_MAX\<close>
  is the system's. The header
  \<^verbatim>\<open>mfsck.h\<close> is not part of the sources: the constants it defines are taken from
  sections 3 and 6 of the specification.
\<close>

abbreviation (input) MAX_DEPTH :: nat where
  "MAX_DEPTH \<equiv> 50"

abbreviation (input) ROOT_INO :: nat where
  "ROOT_INO \<equiv> 1"

abbreviation (input) NAME_MAX :: nat where
  \<comment> \<open>\<^verbatim>\<open>NAME_MAX\<close> of the host's \<^verbatim>\<open>limits.h\<close>\<close>
  "NAME_MAX \<equiv> 255"

abbreviation (input) BLOCK_SIZE :: nat where
  \<comment> \<open>Modelled from the spec: \<^verbatim>\<open>BLOCK_SIZE\<close> of mfsck.h, 1024 bytes.\<close>
  "BLOCK_SIZE \<equiv> 1024"

abbreviation (input) MINIX_SUPER_MAGIC :: "16 word" where
  \<comment> \<open>Modelled from the spec: the v1 magic number with 14-byte names (mfsck.h).\<close>
  "MINIX_SUPER_MAGIC \<equiv> 0x137F"

abbreviation (input) MINIX_SUPER_MAGIC2 :: "16 word" where
  \<comment> \<open>Modelled from the spec: the v1 magic number with 30-byte names (mfsck.h).\<close>
  "MINIX_SUPER_MAGIC2 \<equiv> 0x138F"

abbreviation (input) MINIX2_SUPER_MAGIC :: "16 word" where
  \<comment> \<open>Modelled from the spec: the v2 magic number with 14-byte names (mfsck.h).\<close>
  "MINIX2_SUPER_MAGIC \<equiv> 0x2468"

abbreviation (input) MINIX2_SUPER_MAGIC2 :: "16 word" where
  \<comment> \<open>Modelled from the spec: the v2 magic number with 30-byte names (mfsck.h).\<close>
  "MINIX2_SUPER_MAGIC2 \<equiv> 0x2478"

abbreviation (input) MINIX_VALID_FS :: "16 word" where
  \<comment> \<open>Modelled from the spec: state flag \<^verbatim>\<open>VALID_FS = 0x0001\<close> (mfsck.h).\<close>
  "MINIX_VALID_FS \<equiv> 0x0001"

abbreviation (input) MINIX_ERROR_FS :: "16 word" where
  \<comment> \<open>Modelled from the spec: state flag \<^verbatim>\<open>ERROR_FS = 0x0002\<close> (mfsck.h).\<close>
  "MINIX_ERROR_FS \<equiv> 0x0002"

abbreviation (input) MINIX_INODES_PER_BLOCK :: nat where
  \<comment> \<open>Modelled from the spec: 1024-byte blocks of 32-byte v1 inodes (mfsck.h).\<close>
  "MINIX_INODES_PER_BLOCK \<equiv> 32"

abbreviation (input) MINIX2_INODES_PER_BLOCK :: nat where
  \<comment> \<open>Modelled from the spec: 1024-byte blocks of 64-byte v2 inodes (mfsck.h).\<close>
  "MINIX2_INODES_PER_BLOCK \<equiv> 16"

subsection \<open>Data\<close>

text \<open>A block buffer (\<^verbatim>\<open>char blk[BLOCK_SIZE]\<close>): the byte at each offset.\<close>

type_synonym block = "nat \<Rightarrow> 8 word"

definition zero_block :: block where
  "zero_block = (\<lambda>_. 0)"

text \<open>
  \<^verbatim>\<open>struct minix_super_block\<close>, with the field widths of section 6 of the
  specification (the declaration is in mfsck.h).
\<close>

record minix_super_block =
  s_ninodes :: "16 word"
  s_nzones :: "16 word"
  s_imap_blocks :: "16 word"
  s_zmap_blocks :: "16 word"
  s_firstdatazone :: "16 word"
  s_log_zone_size :: "16 word"
  s_max_size :: "32 word"
  s_magic :: "16 word"
  s_state :: "16 word"
  s_zones :: "32 word"

text \<open>
  \<^verbatim>\<open>struct minix_inode\<close> has 16-bit zone numbers and an 8-bit link count,
  \<^verbatim>\<open>struct minix2_inode\<close> 32-bit zone numbers and a 16-bit link count; the field
  names are the same. The owner and time fields, which the checker never reads, are
  left out. \<^verbatim>\<open>i_zone\<close> has 9 slots in v1 and 10 in v2; the code only uses constant
  indices below that.
\<close>

record ('z, 'n) inode =
  i_mode :: "16 word"
  i_nlinks :: "'n"
  i_size :: "32 word"
  i_zone :: "nat \<Rightarrow> 'z"

type_synonym minix_inode = "(16 word, 8 word) inode"
type_synonym minix2_inode = "(32 word, 16 word) inode"

text \<open>What the program prints, and (as a trace) each question put to \<^verbatim>\<open>ask\<close>.\<close>

datatype event = Print string | Asked string bool

text \<open>The target of a \<^verbatim>\<open>write\<close> call on the device.\<close>

datatype io_target = Super_block | Inode_map | Zone_map | Inode_table | Block_at nat

text \<open>
  The device and the terminal, as the program sees them through \<^verbatim>\<open>open\<close>,
  \<^verbatim>\<open>lseek\<close>, \<^verbatim>\<open>read\<close>, \<^verbatim>\<open>write\<close> and \<^verbatim>\<open>isatty\<close>. The super-block, the
  bitmaps and the inode table are held decoded (both typed views of the inode table,
  as the macros \<^verbatim>\<open>Inode\<close> and \<^verbatim>\<open>Inode2\<close> give them); the other blocks are bytes,
  found by the byte offset the program seeks to. The three predicates say at which
  byte offsets a call fails.
\<close>

record device =
  dev_super :: minix_super_block
  dev_inode_map :: "nat \<Rightarrow> bool"
  dev_zone_map :: "nat \<Rightarrow> bool"
  dev_Inode :: "nat \<Rightarrow> minix_inode"
  dev_Inode2 :: "nat \<Rightarrow> minix2_inode"
  dev_data :: "nat \<Rightarrow> block"
  open_fails :: bool
  seek_fails :: "nat \<Rightarrow> bool"
  read_fails :: "nat \<Rightarrow> bool"
  write_fails :: "nat \<Rightarrow> bool"
  is_tty :: bool

text \<open>
  The globals of the program. \<^verbatim>\<open>list\<close> and \<^verbatim>\<open>show\<close> are renamed; the bitmaps
  are functions from the bit index; \<^verbatim>\<open>name_list\<close> gives the bytes of each of its
  \<^verbatim>\<open>MAX_DEPTH\<close> rows of \<^verbatim>\<open>NAME_MAX+1\<close> bytes; \<^verbatim>\<open>current_name\<close> is the string
  held in its buffer of \<^verbatim>\<open>MAX_DEPTH*(NAME_MAX+1)+1\<close> bytes. The statistic counters (\<^verbatim>\<open>directory\<close>,
  \<^verbatim>\<open>regular\<close>, ..., \<^verbatim>\<open>total\<close>), which only the final report prints, are left out.
  \<^verbatim>\<open>disk\<close> is the current content of the device's blocks, \<^verbatim>\<open>wlog\<close> every
  \<^verbatim>\<open>write\<close> call issued, \<^verbatim>\<open>stdin\<close> the input not yet read, \<^verbatim>\<open>out\<close> the output.
\<close>

record st =
  repair :: bool
  automatic :: bool
  verbose :: bool
  list_opt :: bool
  show_opt :: bool
  warn_mode :: bool
  force :: bool
  device_name :: "string option"
  changed :: bool
  errors_uncorrected :: bool
  dirsize :: nat
  namelen :: nat
  version2 :: bool
  name_depth :: nat
  name_list :: "nat \<Rightarrow> nat \<Rightarrow> 8 word"
  current_name :: "8 word list"
  Super :: minix_super_block
  inode_map :: "nat \<Rightarrow> bool"
  zone_map :: "nat \<Rightarrow> bool"
  Inode :: "nat \<Rightarrow> minix_inode"
  Inode2 :: "nat \<Rightarrow> minix2_inode"
  inode_count :: "nat \<Rightarrow> 8 word"
  zone_count :: "nat \<Rightarrow> 8 word"
  dev :: device
  disk :: "nat \<Rightarrow> block"
  wlog :: "io_target list"
  stdin :: "char list"
  out :: "event list"

subsection \<open>How a call ends\<close>

text \<open>
  A call returns a value, or ends the process (\<^verbatim>\<open>leave\<close>, \<^verbatim>\<open>exit\<close>) with a
  status, or runs into undefined behaviour of C (an access outside an array, a signed
  overflow, a division by zero), or, for the recursive traversal, runs out of the fuel
  the model gives it.
\<close>

datatype fault =
  Name_list_index nat
  | Name_row_index nat
  | Current_name_index nat
  | Block_index nat
  | Zone_count_index int
  | Zone_map_index int
  | Indirect_index nat
  | Inode_index nat
  | Signed_overflow
  | Division_by_zero

datatype 'a outcome = Ret 'a | Exit nat | Fault fault | Timeout

type_synonym 'a m = "st \<Rightarrow> 'a outcome \<times> st"

definition ret :: "'a \<Rightarrow> 'a m" where
  "ret a = (\<lambda>s. (Ret a, s))"

definition bnd :: "'a m \<Rightarrow> ('a \<Rightarrow> 'b m) \<Rightarrow> 'b m" where
  "bnd m f = (\<lambda>s. case m s of
      (Ret a, s') \<Rightarrow> f a s'
    | (Exit n, s') \<Rightarrow> (Exit n, s')
    | (Fault x, s') \<Rightarrow> (Fault x, s')
    | (Timeout, s') \<Rightarrow> (Timeout, s'))"

definition thn :: "'a m \<Rightarrow> 'b m \<Rightarrow> 'b m" where
  "thn m n = bnd m (\<lambda>_. n)"

definition gets :: "(st \<Rightarrow> 'a) \<Rightarrow> 'a m" where
  "gets f = (\<lambda>s. (Ret (f s), s))"

definition modify :: "(st \<Rightarrow> st) \<Rightarrow> unit m" where
  "modify f = (\<lambda>s. (Ret (), f s))"

definition fault :: "fault \<Rightarrow> 'a m" where
  "fault x = (\<lambda>s. (Fault x, s))"

definition printf :: "string \<Rightarrow> unit m" where
  "printf str = modify (\<lambda>s. s\<lparr>out := out s @ [Print str]\<rparr>)"

text \<open>\<^verbatim>\<open>leave(status)\<close>; \<^verbatim>\<open>usage()\<close> leaves with 16 and \<^verbatim>\<open>die(...)\<close> with 8.\<close>

definition leave :: "nat \<Rightarrow> 'a m" where
  "leave status = (\<lambda>s. (Exit status, s))"

definition usage :: "'a m" where
  "usage = thn (printf ''Usage: %s [-larvsmf] /dev/name'') (leave 16)"

definition die :: "string \<Rightarrow> 'a m" where
  "die fmt = thn (printf fmt) (leave 8)"

subsection \<open>The macros over the super-block and the bitmaps\<close>

definition INODES :: "st \<Rightarrow> nat" where
  "INODES s = unat (s_ninodes (Super s))"

definition ZONES :: "st \<Rightarrow> nat" where
  "ZONES s = (if version2 s then unat (s_zones (Super s)) else unat (s_nzones (Super s)))"

definition IMAPS :: "st \<Rightarrow> nat" where
  "IMAPS s = unat (s_imap_blocks (Super s))"

definition ZMAPS :: "st \<Rightarrow> nat" where
  "ZMAPS s = unat (s_zmap_blocks (Super s))"

definition FIRSTZONE :: "st \<Rightarrow> nat" where
  "FIRSTZONE s = unat (s_firstdatazone (Super s))"

definition ZONESIZE :: "st \<Rightarrow> nat" where
  "ZONESIZE s = unat (s_log_zone_size (Super s))"

definition UPPER :: "nat \<Rightarrow> nat \<Rightarrow> nat" where
  "UPPER sz n = (sz + (n - 1)) div n"

definition INODE_BLOCKS :: "st \<Rightarrow> nat" where
  "INODE_BLOCKS s =
     UPPER (INODES s) (if version2 s then MINIX2_INODES_PER_BLOCK else MINIX_INODES_PER_BLOCK)"

definition NORM_FIRSTZONE :: "st \<Rightarrow> nat" where
  "NORM_FIRSTZONE s = 2 + IMAPS s + ZMAPS s + INODE_BLOCKS s"

text \<open>
  \<^verbatim>\<open>bit\<close>, \<^verbatim>\<open>setbit\<close> and \<^verbatim>\<open>clrbit\<close> come from \<^verbatim>\<open>bitops.h\<close>, which is not part
  of the sources; they test, set and clear the bit of a given index. The zone map has
  \<^verbatim>\<open>ZMAPS * BLOCK_SIZE\<close> bytes: \<^verbatim>\<open>zone_bit x\<close> is the index \<^verbatim>\<open>(x)-FIRSTZONE+1\<close> the
  macros \<^verbatim>\<open>zone_in_use\<close>, \<^verbatim>\<open>mark_zone\<close> and \<^verbatim>\<open>unmark_zone\<close> compute for the
  \<^verbatim>\<open>int\<close> \<^verbatim>\<open>x\<close>, or nothing when that index lies outside the map.
\<close>

definition inode_in_use :: "st \<Rightarrow> nat \<Rightarrow> bool" where
  \<comment> \<open>Modelled from the spec: \<^verbatim>\<open>bit(inode_map, x) != 0\<close>, with \<^verbatim>\<open>bit\<close> of bitops.h.\<close>
  "inode_in_use s x = inode_map s x"

definition mark_inode :: "nat \<Rightarrow> unit m" where
  \<comment> \<open>Modelled from the spec: \<^verbatim>\<open>setbit\<close> of bitops.h sets the bit.\<close>
  "mark_inode x = modify (\<lambda>s. s\<lparr>inode_map := (inode_map s)(x := True), changed := True\<rparr>)"

definition unmark_inode :: "nat \<Rightarrow> unit m" where
  \<comment> \<open>Modelled from the spec: \<^verbatim>\<open>clrbit\<close> of bitops.h clears the bit.\<close>
  "unmark_inode x = modify (\<lambda>s. s\<lparr>inode_map := (inode_map s)(x := False), changed := True\<rparr>)"

definition zone_bit :: "st \<Rightarrow> int \<Rightarrow> nat option" where
  "zone_bit s x =
     (if int (FIRSTZONE s) \<le> x + 1 \<and> x + 1 - int (FIRSTZONE s) < int (ZMAPS s * BLOCK_SIZE * 8)
      then Some (nat (x + 1 - int (FIRSTZONE s))) else None)"

definition zone_in_use :: "int \<Rightarrow> bool m" where
  \<comment> \<open>Modelled from the spec: \<^verbatim>\<open>bit\<close> of bitops.h tests the bit.\<close>
  "zone_in_use x = (\<lambda>s. case zone_bit s x of
       None \<Rightarrow> (Fault (Zone_map_index x), s)
     | Some b \<Rightarrow> (Ret (zone_map s b), s))"

definition mark_zone :: "int \<Rightarrow> unit m" where
  \<comment> \<open>Modelled from the spec: \<^verbatim>\<open>setbit\<close> of bitops.h sets the bit.\<close>
  "mark_zone x = (\<lambda>s. case zone_bit s x of
       None \<Rightarrow> (Fault (Zone_map_index x), s)
     | Some b \<Rightarrow> (Ret (), s\<lparr>zone_map := (zone_map s)(b := True), changed := True\<rparr>))"

definition unmark_zone :: "int \<Rightarrow> unit m" where
  \<comment> \<open>Modelled from the spec: \<^verbatim>\<open>clrbit\<close> of bitops.h clears the bit.\<close>
  "unmark_zone x = (\<lambda>s. case zone_bit s x of
       None \<Rightarrow> (Fault (Zone_map_index x), s)
     | Some b \<Rightarrow> (Ret (), s\<lparr>zone_map := (zone_map s)(b := False), changed := True\<rparr>))"

text \<open>
  \<^verbatim>\<open>zone_count\<close> is an array of \<^verbatim>\<open>ZONES\<close> bytes (\<^verbatim>\<open>malloc(ZONES)\<close> in
  \<^verbatim>\<open>read_tables\<close>), indexed by an \<^verbatim>\<open>int\<close>.
\<close>

definition zone_count_at :: "int \<Rightarrow> 8 word m" where
  "zone_count_at i = (\<lambda>s.
     if 0 \<le> i \<and> nat i < ZONES s then (Ret (zone_count s (nat i)), s)
     else (Fault (Zone_count_index i), s))"

definition zone_count_incr :: "int \<Rightarrow> unit m" where
  \<comment> \<open>\<^verbatim>\<open>if (!++zone_count[block]) zone_count[block]--;\<close>\<close>
  "zone_count_incr i = (\<lambda>s.
     if 0 \<le> i \<and> nat i < ZONES s
     then (Ret (), s\<lparr>zone_count := (zone_count s)
             (nat i := (if zone_count s (nat i) + 1 = 0 then zone_count s (nat i)
                        else zone_count s (nat i) + 1))\<rparr>)
     else (Fault (Zone_count_index i), s))"

subsection \<open>Bytes of a block\<close>

text \<open>
  The casts \<^verbatim>\<open>(unsigned short *)\<close> and \<^verbatim>\<open>(unsigned int *)\<close> on a block read the
  bytes in the order of the host, little-endian on the x86 this tool is built for.
\<close>

definition u16_at :: "block \<Rightarrow> nat \<Rightarrow> 16 word" where
  "u16_at b p = word_cat (b (p + 1)) (b p)"

definition u32_at :: "block \<Rightarrow> nat \<Rightarrow> 32 word" where
  "u32_at b p = word_cat (u16_at b (p + 2)) (u16_at b p)"

definition put16 :: "block \<Rightarrow> nat \<Rightarrow> 16 word \<Rightarrow> block" where
  "put16 b p v = b(p := ucast v, p + 1 := ucast (drop_bit 8 v))"

definition put32 :: "block \<Rightarrow> nat \<Rightarrow> 32 word \<Rightarrow> block" where
  "put32 b p v = put16 (put16 b p (ucast v)) (p + 2) (ucast (drop_bit 16 v))"

abbreviation (input) slash :: "8 word" where
  "slash \<equiv> 0x2F"

abbreviation (input) dot :: "8 word" where
  "dot \<equiv> 0x2E"

text \<open>
  \<^verbatim>\<open>strcmp(blk + p, "..") == 0\<close> for \<^verbatim>\<open>get_dirsize\<close>, where \<^verbatim>\<open>p\<close> is at most 514.
\<close>

definition is_dotdot :: "block \<Rightarrow> nat \<Rightarrow> bool" where
  "is_dotdot b p = (b p = dot \<and> b (p + 1) = dot \<and> b (p + 2) = 0)"

text \<open>
  \<^verbatim>\<open>strcmp(lit, name) == 0\<close> for a literal \<^verbatim>\<open>lit\<close> and the string at index \<^verbatim>\<open>p\<close> of
  an array of \<^verbatim>\<open>len\<close> bytes: the bytes are compared one by one up to the first that
  differs. The result is nothing when the comparison reads index \<^verbatim>\<open>len\<close>.
\<close>

primrec c_strcmp :: "8 word list \<Rightarrow> (nat \<Rightarrow> 8 word) \<Rightarrow> nat \<Rightarrow> nat \<Rightarrow> bool option" where
  "c_strcmp [] f p len = (if len \<le> p then None else Some (f p = 0))"
| "c_strcmp (c # cs) f p len =
     (if len \<le> p then None
      else if f p = c then c_strcmp cs f (Suc p) len
      else Some False)"

text \<open>
  A loop that reads a string of at most \<^verbatim>\<open>n\<close> bytes from index \<^verbatim>\<open>p\<close> of an array
  that has \<^verbatim>\<open>lim\<close> bytes from there on, and stops at the first NUL (the loop of
  \<^verbatim>\<open>get_current_name\<close>, \<^verbatim>\<open>strncpy\<close>, \<^verbatim>\<open>printf("%.*s")\<close>): the bytes before the
  NUL, and whether the loop goes on to read the byte after the array.
\<close>

definition c_chars :: "(nat \<Rightarrow> 8 word) \<Rightarrow> nat \<Rightarrow> nat \<Rightarrow> nat \<Rightarrow> 8 word list \<times> bool" where
  "c_chars f p lim n =
     (let t = takeWhile (\<lambda>c. c \<noteq> 0) (map f [p ..< p + min n lim])
      in (t, length t = lim \<and> lim < n))"

text \<open>
  \<^verbatim>\<open>strncpy(dst, src, n)\<close> on a row \<^verbatim>\<open>dst\<close>, where \<^verbatim>\<open>t\<close> are the bytes of \<^verbatim>\<open>src\<close>
  before its first NUL, at most \<^verbatim>\<open>n\<close>: they are copied and padded with NULs to
  \<^verbatim>\<open>n\<close> bytes; the rest of the row stays.
\<close>

definition c_strncpy :: "8 word list \<Rightarrow> nat \<Rightarrow> (nat \<Rightarrow> 8 word) \<Rightarrow> (nat \<Rightarrow> 8 word)" where
  "c_strncpy t n dst = (\<lambda>j. if j < length t then t ! j else if j < n then 0 else dst j)"

subsection \<open>get\_current\_name\<close>

text \<open>
  The outer loop of \<^verbatim>\<open>get_current_name\<close> (lines 241-247) over the rows
  \<^verbatim>\<open>0 .. name_depth - 1\<close>. Each row read is \<^verbatim>\<open>name_list[i]\<close>, and \<^verbatim>\<open>name_list\<close> has
  \<^verbatim>\<open>MAX_DEPTH\<close> rows. The inner loop copies the row up to its first NUL, at most
  \<^verbatim>\<open>namelen\<close> bytes, and a row has \<^verbatim>\<open>NAME_MAX+1\<close> bytes. Every byte copied and the
  \<^verbatim>\<open>'/'\<close> before it are written to \<^verbatim>\<open>current_name\<close>, whose last index is
  \<^verbatim>\<open>MAX_DEPTH*(NAME_MAX+1)\<close>.
\<close>

primrec render_names ::
  "(nat \<Rightarrow> nat \<Rightarrow> 8 word) \<Rightarrow> nat \<Rightarrow> nat list \<Rightarrow> 8 word list \<Rightarrow> fault + 8 word list" where
  "render_names nl n [] q = Inr q"
| "render_names nl n (i # rest) q =
     (if MAX_DEPTH \<le> i then Inl (Name_list_index i)
      else case c_chars (nl i) 0 (NAME_MAX + 1) n of
        (t, over) \<Rightarrow>
          if MAX_DEPTH * (NAME_MAX + 1) + 1 < length (q @ [slash] @ t)
          then Inl (Current_name_index (MAX_DEPTH * (NAME_MAX + 1) + 1))
          else if over then Inl (Name_row_index (NAME_MAX + 1))
          else render_names nl n rest (q @ [slash] @ t))"

text \<open>
  \<^verbatim>\<open>get_current_name\<close>: after the loop, the \<^verbatim>\<open>'/'\<close> of the empty path and the final
  NUL are written.
\<close>

definition get_current_name :: "unit m" where
  "get_current_name = (\<lambda>s.
     case render_names (name_list s) (namelen s) [0 ..< name_depth s] [] of
       Inl x \<Rightarrow> (Fault x, s)
     | Inr q \<Rightarrow>
         if MAX_DEPTH * (NAME_MAX + 1) < length q
         then (Fault (Current_name_index (length q)), s)
         else (Ret (), s\<lparr>current_name := (if name_depth s = 0 then [slash] else q)\<rparr>))"

subsection \<open>ask\<close>

text \<open>
  The loop of \<^verbatim>\<open>ask\<close> (lines 269-285) over the characters \<^verbatim>\<open>getchar\<close> returns:
  the answer, or nothing at the end of the input, and the input left.
\<close>

fun ask_scan :: "bool \<Rightarrow> char list \<Rightarrow> bool option \<times> char list" where
  "ask_scan def [] = (None, [])"
| "ask_scan def (c # cs) =
     (if c = CHR ''y'' \<or> c = CHR ''Y'' then (Some True, cs)
      else if c = CHR ''n'' \<or> c = CHR ''N'' then (Some False, cs)
      else if c = CHR '' '' \<or> c = CHR 0x0A then (Some def, cs)
      else ask_scan def cs)"

definition ask_prompt :: "bool \<Rightarrow> string" where
  "ask_prompt def = (if def then '' (y/n)? '' else '' (n/y)? '')"

definition ask_repair :: "string \<Rightarrow> bool \<Rightarrow> bool m" where
  "ask_repair string def = (\<lambda>s.
     if automatic s
     then (Ret def, s\<lparr>out := out s @ [Print ''\<newline>''],
                     errors_uncorrected := (errors_uncorrected s \<or> \<not> def)\<rparr>)
     else (case ask_scan def (stdin s) of
         (None, rest) \<Rightarrow>
           (Ret def, s\<lparr>out := out s @ [Print (string @ ask_prompt def)], stdin := rest,
                       errors_uncorrected := (errors_uncorrected s \<or> \<not> def)\<rparr>)
       | (Some a, rest) \<Rightarrow>
           (Ret a, s\<lparr>out := out s @ [Print (string @ ask_prompt def),
                                     Print (if a then ''y'' else ''n'')],
                     stdin := rest,
                     errors_uncorrected := (errors_uncorrected s \<or> \<not> a)\<rparr>)))"

definition ask :: "string \<Rightarrow> bool \<Rightarrow> bool m" where
  "ask string def =
     thn (modify (\<lambda>s. s\<lparr>out := out s @ [Asked string def]\<rparr>))
       (bnd (gets repair) (\<lambda>r.
          if \<not> r
          then thn (printf ''\<newline>'')
                 (thn (modify (\<lambda>s. s\<lparr>errors_uncorrected := True\<rparr>)) (ret False))
          else ask_repair string def))"

subsection \<open>Zone numbers\<close>

text \<open>
  The \<^verbatim>\<open>int *corrected\<close> of \<^verbatim>\<open>check_zone_nr\<close> and \<^verbatim>\<open>add_zone\<close> points either to
  the global \<^verbatim>\<open>changed\<close> or to a local flag of the caller.
\<close>

datatype flagp = Global_changed | Local bool

definition set_flag :: "flagp \<Rightarrow> flagp m" where
  \<comment> \<open>\<^verbatim>\<open>*corrected = 1\<close>\<close>
  "set_flag p = (case p of
       Global_changed \<Rightarrow> thn (modify (\<lambda>s. s\<lparr>changed := True\<rparr>)) (ret Global_changed)
     | Local b \<Rightarrow> ret (Local True))"

definition flag_set :: "flagp \<Rightarrow> bool m" where
  "flag_set p = (case p of Global_changed \<Rightarrow> gets changed | Local b \<Rightarrow> ret b)"

text \<open>An unsigned value of at most 32 bits converted to \<^verbatim>\<open>int\<close>.\<close>

definition c_int :: "'a::len word \<Rightarrow> int" where
  "c_int w = sint (ucast w :: 32 word)"

text \<open>
  \<^verbatim>\<open>check_zone_nr\<close> (lines 347-368) and \<^verbatim>\<open>check_zone_nr2\<close> (lines 370-391) are the
  same text, on \<^verbatim>\<open>unsigned short *nr\<close> and on \<^verbatim>\<open>unsigned int *nr\<close>. The result is the
  value returned, the new \<^verbatim>\<open>*nr\<close> and the new \<^verbatim>\<open>*corrected\<close>.
\<close>

definition check_zone_nr_of :: "'a::len word \<Rightarrow> flagp \<Rightarrow> (int \<times> 'a word \<times> flagp) m" where
  "check_zone_nr_of nr corrected =
     (if nr = 0 then ret (0, nr, corrected)
      else bnd (gets (\<lambda>s. (FIRSTZONE s, ZONES s))) (\<lambda>(firstzone, zones).
        if unat nr < firstzone \<or> zones \<le> unat nr
        then thn get_current_name
            (thn (printf (if unat nr < firstzone then ''Zone nr < FIRSTZONE in file %s.''
                          else ''Zone nr >= ZONES in file %s.''))
            (bnd (ask ''Remove block'' True) (\<lambda>a.
               if a then bnd (set_flag corrected) (\<lambda>c. ret (0, 0, c))
               else ret (0, nr, corrected))))
        else ret (c_int nr, nr, corrected)))"

definition check_zone_nr :: "16 word \<Rightarrow> flagp \<Rightarrow> (int \<times> 16 word \<times> flagp) m" where
  "check_zone_nr = check_zone_nr_of"

definition check_zone_nr2 :: "32 word \<Rightarrow> flagp \<Rightarrow> (int \<times> 32 word \<times> flagp) m" where
  "check_zone_nr2 = check_zone_nr_of"

subsection \<open>Block input and output\<close>

text \<open>\<^verbatim>\<open>BLOCK_SIZE*nr\<close> for an \<^verbatim>\<open>unsigned int nr\<close>: the product wraps at 32 bits.\<close>

definition block_offset :: "32 word \<Rightarrow> nat" where
  "block_offset nr = unat (1024 * nr)"

definition read_error :: "string \<Rightarrow> block m" where
  "read_error msg =
     thn get_current_name
       (thn (printf msg)
         (thn (modify (\<lambda>s. s\<lparr>errors_uncorrected := True\<rparr>)) (ret zero_block)))"

definition read_block :: "32 word \<Rightarrow> block m" where
  "read_block nr =
     (if nr = 0 then ret zero_block
      else bnd (gets dev) (\<lambda>d.
        if seek_fails d (block_offset nr)
        then read_error ''Read error: unable to seek to block in file %s''
        else if read_fails d (block_offset nr)
        then read_error ''Read error: bad block in file %s''
        else gets (\<lambda>s. disk s (block_offset nr))))"

text \<open>A \<^verbatim>\<open>write\<close> call at a byte offset: it is logged, and the device says whether it succeeds.\<close>

definition dev_write :: "io_target \<Rightarrow> nat \<Rightarrow> bool m" where
  "dev_write t off = (\<lambda>s. (Ret (\<not> write_fails (dev s) off), s\<lparr>wlog := wlog s @ [t]\<rparr>))"

definition write_block :: "32 word \<Rightarrow> block \<Rightarrow> unit m" where
  "write_block nr addr =
     (if nr = 0 then ret ()
      else bnd (gets (\<lambda>s. (FIRSTZONE s, ZONES s))) (\<lambda>(firstzone, zones).
        if unat nr < firstzone \<or> zones \<le> unat nr
        then thn (printf ''Internal error: trying to write bad block. Write request ignored'')
               (modify (\<lambda>s. s\<lparr>errors_uncorrected := True\<rparr>))
        else bnd (gets dev) (\<lambda>d.
          if seek_fails d (block_offset nr) then die ''seek failed in write_block''
          else bnd (dev_write (Block_at (block_offset nr)) (block_offset nr)) (\<lambda>ok.
            if ok then modify (\<lambda>s. s\<lparr>disk := (disk s)(block_offset nr := addr)\<rparr>)
            else thn get_current_name
                  (thn (printf ''Write error: bad block in file %s'')
                    (modify (\<lambda>s. s\<lparr>errors_uncorrected := True\<rparr>)))))))"

subsection \<open>map\_block and map\_block2\<close>

text \<open>
  \<^verbatim>\<open>check_zone_nr(inode->i_zone + k, &changed)\<close> on inode \<^verbatim>\<open>ino\<close> of the table: the
  slot is read, checked and stored back.
\<close>

definition set_zone :: "nat \<Rightarrow> 'z \<Rightarrow> ('z, 'n) inode \<Rightarrow> ('z, 'n) inode" where
  "set_zone k z i = i\<lparr>i_zone := (i_zone i)(k := z)\<rparr>"

definition check_inode_zone :: "nat \<Rightarrow> nat \<Rightarrow> int m" where
  "check_inode_zone ino k =
     bnd (gets (\<lambda>s. i_zone (Inode s ino) k)) (\<lambda>z.
     bnd (check_zone_nr z Global_changed) (\<lambda>(result, z', _).
     thn (modify (\<lambda>s. s\<lparr>Inode := (Inode s)(ino := set_zone k z' (Inode s ino))\<rparr>))
       (ret result)))"

definition check_inode_zone2 :: "nat \<Rightarrow> nat \<Rightarrow> int m" where
  "check_inode_zone2 ino k =
     bnd (gets (\<lambda>s. i_zone (Inode2 s ino) k)) (\<lambda>z.
     bnd (check_zone_nr2 z Global_changed) (\<lambda>(result, z', _).
     thn (modify (\<lambda>s. s\<lparr>Inode2 := (Inode2 s)(ino := set_zone k z' (Inode2 s ino))\<rparr>))
       (ret result)))"

text \<open>
  The three lines \<^verbatim>\<open>blk_chg = 0; result = check_zone_nr(ind + k, &blk_chg);
  if (blk_chg) write_block(block, (char *) ind);\<close> on the local array \<^verbatim>\<open>ind\<close>, which
  has \<^verbatim>\<open>BLOCK_SIZE >> 1\<close> entries in \<^verbatim>\<open>map_block\<close> and \<^verbatim>\<open>BLOCK_SIZE >> 2\<close> in
  \<^verbatim>\<open>map_block2\<close>.
\<close>

definition map_entry :: "int \<Rightarrow> block \<Rightarrow> nat \<Rightarrow> int m" where
  "map_entry block ind k =
     (if BLOCK_SIZE div 2 \<le> k then fault (Indirect_index k)
      else bnd (check_zone_nr (u16_at ind (2 * k)) (Local False)) (\<lambda>(result, z', blk_chg).
        bnd (flag_set blk_chg) (\<lambda>c.
        thn (if c then write_block (word_of_int block) (put16 ind (2 * k) z') else ret ())
          (ret result))))"

definition map_entry2 :: "int \<Rightarrow> block \<Rightarrow> nat \<Rightarrow> int m" where
  "map_entry2 block ind k =
     (if BLOCK_SIZE div 4 \<le> k then fault (Indirect_index k)
      else bnd (check_zone_nr2 (u32_at ind (4 * k)) (Local False)) (\<lambda>(result, z', blk_chg).
        bnd (flag_set blk_chg) (\<lambda>c.
        thn (if c then write_block (word_of_int block) (put32 ind (4 * k) z') else ret ())
          (ret result))))"

definition map_block :: "nat \<Rightarrow> 32 word \<Rightarrow> int m" where
  "map_block ino blknr =
     (if blknr < 7 then check_inode_zone ino (unat blknr)
      else let blknr = blknr - 7 in
      if blknr < 512
      then bnd (check_inode_zone ino 7) (\<lambda>block.
           bnd (read_block (word_of_int block)) (\<lambda>ind.
           map_entry block ind (unat blknr)))
      else let blknr = blknr - 512 in
           bnd (check_inode_zone ino 8) (\<lambda>block.
           bnd (read_block (word_of_int block)) (\<lambda>dind.
           bnd (map_entry block dind (unat (blknr div 512))) (\<lambda>block.
           bnd (read_block (word_of_int block)) (\<lambda>ind.
           map_entry block ind (unat (blknr mod 512)))))))"

definition map_block2 :: "nat \<Rightarrow> 32 word \<Rightarrow> int m" where
  "map_block2 ino blknr =
     (if blknr < 7 then check_inode_zone2 ino (unat blknr)
      else let blknr = blknr - 7 in
      if blknr < 256
      then bnd (check_inode_zone2 ino 7) (\<lambda>block.
           bnd (read_block (word_of_int block)) (\<lambda>ind.
           map_entry2 block ind (unat blknr)))
      else let blknr = blknr - 256 in
      if 256 * 256 \<le> blknr
      then bnd (check_inode_zone2 ino 8) (\<lambda>block.
           bnd (read_block (word_of_int block)) (\<lambda>dind.
           bnd (map_entry2 block dind (unat (blknr div 256))) (\<lambda>block.
           bnd (read_block (word_of_int block)) (\<lambda>ind.
           map_entry2 block ind (unat (blknr mod 256))))))
      else let blknr = blknr - 256 * 256 in
           bnd (check_inode_zone2 ino 9) (\<lambda>block.
           bnd (read_block (word_of_int block)) (\<lambda>tind.
           bnd (map_entry2 block tind (unat (blknr div (256 * 256)))) (\<lambda>block.
           bnd (read_block (word_of_int block)) (\<lambda>dind.
           bnd (map_entry2 block dind (unat ((blknr div 256) mod 256))) (\<lambda>block.
           bnd (read_block (word_of_int block)) (\<lambda>ind.
           map_entry2 block ind (unat (blknr mod 256)))))))))"

subsection \<open>Writing the tables back\<close>

definition write_super_block :: "unit m" where
  "write_super_block =
     thn (modify (\<lambda>s. s\<lparr>Super := (Super s)\<lparr>s_state := s_state (Super s) OR MINIX_VALID_FS\<rparr>\<rparr>))
    (thn (bnd (gets errors_uncorrected) (\<lambda>e.
       if e
       then modify (\<lambda>s. s\<lparr>Super := (Super s)\<lparr>s_state := s_state (Super s) OR MINIX_ERROR_FS\<rparr>\<rparr>)
       else modify (\<lambda>s. s\<lparr>Super := (Super s)\<lparr>s_state := s_state (Super s) AND NOT MINIX_ERROR_FS\<rparr>\<rparr>)))
    (bnd (gets dev) (\<lambda>d.
       if seek_fails d BLOCK_SIZE then die ''seek failed in write_super_block''
       else bnd (dev_write Super_block BLOCK_SIZE) (\<lambda>ok.
         if ok then ret () else die ''unable to write super-block''))))"

text \<open>
  After \<^verbatim>\<open>write_super_block\<close> the file offset is \<^verbatim>\<open>2 * BLOCK_SIZE\<close>; the three
  \<^verbatim>\<open>write\<close> calls of \<^verbatim>\<open>write_tables\<close> follow one another from there.
\<close>

definition write_tables :: "unit m" where
  "write_tables =
     thn write_super_block
    (bnd (gets (\<lambda>s. (IMAPS s, ZMAPS s))) (\<lambda>(imaps, zmaps).
     bnd (dev_write Inode_map (2 * BLOCK_SIZE)) (\<lambda>ok.
     if \<not> ok then die ''Unable to write inode map''
     else bnd (dev_write Zone_map (2 * BLOCK_SIZE + imaps * BLOCK_SIZE)) (\<lambda>ok.
     if \<not> ok then die ''Unable to write zone map''
     else bnd (dev_write Inode_table (2 * BLOCK_SIZE + imaps * BLOCK_SIZE + zmaps * BLOCK_SIZE))
       (\<lambda>ok.
     if \<not> ok then die ''Unable to write inodes'' else ret ())))))"

subsection \<open>The inode table\<close>

text \<open>
  \<^verbatim>\<open>Inode[nr]\<close> and \<^verbatim>\<open>Inode2[nr]\<close>: the buffer holds the inodes
  \<^verbatim>\<open>1 .. INODE_BLOCKS * inodes per block\<close> (the macros subtract one from the pointer).
\<close>

definition Inode_at :: "nat \<Rightarrow> minix_inode m" where
  "Inode_at nr = (\<lambda>s.
     if 1 \<le> nr \<and> nr \<le> INODE_BLOCKS s * MINIX_INODES_PER_BLOCK then (Ret (Inode s nr), s)
     else (Fault (Inode_index nr), s))"

definition Inode2_at :: "nat \<Rightarrow> minix2_inode m" where
  "Inode2_at nr = (\<lambda>s.
     if 1 \<le> nr \<and> nr \<le> INODE_BLOCKS s * MINIX2_INODES_PER_BLOCK then (Ret (Inode2 s nr), s)
     else (Fault (Inode_index nr), s))"

text \<open>The file type tests of \<^verbatim>\<open>sys/stat.h\<close> on \<^verbatim>\<open>i_mode\<close>.\<close>

definition S_ISDIR :: "16 word \<Rightarrow> bool" where
  "S_ISDIR mode = (mode AND 0xF000 = 0x4000)"

definition S_ISREG :: "16 word \<Rightarrow> bool" where
  "S_ISREG mode = (mode AND 0xF000 = 0x8000)"

definition S_ISCHR :: "16 word \<Rightarrow> bool" where
  "S_ISCHR mode = (mode AND 0xF000 = 0x2000)"

definition S_ISBLK :: "16 word \<Rightarrow> bool" where
  "S_ISBLK mode = (mode AND 0xF000 = 0x6000)"

definition S_ISLNK :: "16 word \<Rightarrow> bool" where
  "S_ISLNK mode = (mode AND 0xF000 = 0xA000)"

definition S_ISSOCK :: "16 word \<Rightarrow> bool" where
  "S_ISSOCK mode = (mode AND 0xF000 = 0xC000)"

definition S_ISFIFO :: "16 word \<Rightarrow> bool" where
  "S_ISFIFO mode = (mode AND 0xF000 = 0x1000)"

subsection \<open>Reading the super-block and the tables\<close>

text \<open>
  \<^verbatim>\<open>get_dirsize\<close>: the loop \<^verbatim>\<open>for (size = 16; size < BLOCK_SIZE; size <<= 1)\<close> tries
  the sizes 16, 32, 64, 128, 256 and 512 in this order and stops at the first hit.
\<close>

definition dirsize_scan :: "block \<Rightarrow> nat option" where
  "dirsize_scan blk = find (\<lambda>sz. is_dotdot blk (sz + 2)) [16, 32, 64, 128, 256, 512]"

definition get_dirsize :: "unit m" where
  "get_dirsize =
     bnd (gets version2) (\<lambda>v2.
     bnd (if v2 then bnd (Inode2_at ROOT_INO) (\<lambda>i. ret (i_zone i 0))
          else bnd (Inode_at ROOT_INO) (\<lambda>i. ret (ucast (i_zone i 0)))) (\<lambda>block.
     bnd (read_block block) (\<lambda>blk.
     case dirsize_scan blk of
       Some sz \<Rightarrow> modify (\<lambda>s. s\<lparr>dirsize := sz, namelen := sz - 2\<rparr>)
     | None \<Rightarrow> ret ())))"

text \<open>
  \<^verbatim>\<open>read_superblock\<close>. The allocations are taken to succeed. The last test compares
  in \<^verbatim>\<open>unsigned long\<close>, where \<^verbatim>\<open>ZONES - FIRSTZONE + 1\<close> wraps when
  \<^verbatim>\<open>ZONES + 1 < FIRSTZONE\<close> (64 bits here; with 32 bits the test decides the same).
\<close>

definition set_variant :: "nat \<Rightarrow> nat \<Rightarrow> bool \<Rightarrow> unit m" where
  "set_variant nl ds v2 = modify (\<lambda>s. s\<lparr>namelen := nl, dirsize := ds, version2 := v2\<rparr>)"

definition read_superblock :: "unit m" where
  "read_superblock =
     bnd (gets dev) (\<lambda>d.
     if seek_fails d BLOCK_SIZE then die ''seek failed''
     else if read_fails d BLOCK_SIZE then die ''unable to read super block''
     else thn (modify (\<lambda>s. s\<lparr>Super := dev_super d\<rparr>))
         (thn (bnd (gets (\<lambda>s. s_magic (Super s))) (\<lambda>magic.
            if magic = MINIX_SUPER_MAGIC then set_variant 14 16 False
            else if magic = MINIX_SUPER_MAGIC2 then set_variant 30 32 False
            else if magic = MINIX2_SUPER_MAGIC then set_variant 14 16 True
            else if magic = MINIX2_SUPER_MAGIC2 then set_variant 30 32 True
            else die ''bad magic number in super-block''))
         (bnd (gets (\<lambda>s. s)) (\<lambda>s.
            if 0 < ZONESIZE s then die ''Only 1k blocks/zones supported''
            else if IMAPS s * BLOCK_SIZE * 8 < INODES s + 1
            then die ''bad s_imap_blocks field in super-block''
            else if ZMAPS s * BLOCK_SIZE * 8 < (ZONES s + 2 ^ 64 - FIRSTZONE s + 1) mod 2 ^ 64
            then die ''bad s_zmap_blocks field in super-block''
            else ret ()))))"

text \<open>
  \<^verbatim>\<open>read_tables\<close>: the three \<^verbatim>\<open>read\<close> calls follow one another from the file offset
  \<^verbatim>\<open>2 * BLOCK_SIZE\<close> that \<^verbatim>\<open>read_superblock\<close> left.
\<close>

definition read_tables :: "unit m" where
  "read_tables =
     bnd (gets (\<lambda>s. (dev s, IMAPS s, ZMAPS s))) (\<lambda>(d, imaps, zmaps).
     if read_fails d (2 * BLOCK_SIZE) then die ''Unable to read inode map''
     else thn (modify (\<lambda>s. s\<lparr>inode_map := dev_inode_map d\<rparr>))
      (if read_fails d (2 * BLOCK_SIZE + imaps * BLOCK_SIZE) then die ''Unable to read zone map''
       else thn (modify (\<lambda>s. s\<lparr>zone_map := dev_zone_map d\<rparr>))
        (if read_fails d (2 * BLOCK_SIZE + imaps * BLOCK_SIZE + zmaps * BLOCK_SIZE)
         then die ''Unable to read inodes''
         else thn (modify (\<lambda>s. s\<lparr>Inode := dev_Inode d, Inode2 := dev_Inode2 d\<rparr>))
          (thn (bnd (gets (\<lambda>s. (NORM_FIRSTZONE s, FIRSTZONE s))) (\<lambda>(norm, firstzone).
             if norm = firstzone then ret ()
             else thn (printf ''Warning: Firstzone != Norm_firstzone'')
                    (modify (\<lambda>s. s\<lparr>errors_uncorrected := True\<rparr>))))
          (thn get_dirsize
            (bnd (gets show_opt) (\<lambda>sh.
               if sh then printf ''%ld inodes, %ld blocks, Firstdatazone, Zonesize, Maxsize, state, namelen''
               else ret ())))))))"

subsection \<open>get\_inode and check\_root\<close>

text \<open>The chain of file type tests in \<^verbatim>\<open>get_inode\<close>: only its last branch prints.\<close>

definition classify :: "16 word \<Rightarrow> unit m" where
  "classify mode =
     (if S_ISDIR mode \<or> S_ISREG mode \<or> S_ISCHR mode \<or> S_ISBLK mode \<or> S_ISLNK mode
         \<or> S_ISSOCK mode \<or> S_ISFIFO mode
      then ret ()
      else thn get_current_name (printf ''The file %s has mode %05o''))"

definition count_inode :: "nat \<Rightarrow> unit m" where
  \<comment> \<open>\<^verbatim>\<open>if (!++inode_count[nr]) { printf(...); inode_count[nr]--; errors_uncorrected = 1; }\<close>\<close>
  "count_inode nr =
     bnd (gets (\<lambda>s. inode_count s nr)) (\<lambda>c.
     if c + 1 = 0
     then thn (printf ''Warning: inode count too big.'')
            (modify (\<lambda>s. s\<lparr>errors_uncorrected := True\<rparr>))
     else modify (\<lambda>s. s\<lparr>inode_count := (inode_count s)(nr := c + 1)\<rparr>))"

text \<open>The result is the inode's number, or nothing for \<^verbatim>\<open>NULL\<close>.\<close>

definition get_inode :: "nat \<Rightarrow> nat option m" where
  "get_inode nr =
     bnd (gets (\<lambda>s. s)) (\<lambda>s.
     if nr = 0 \<or> INODES s < nr then ret None
     else thn (if inode_count s nr = 0
               then thn (if inode_in_use s nr then ret ()
                         else thn get_current_name
                             (thn (printf ''Inode %d marked unused, but used for file %s'')
                               (if repair s
                                then bnd (ask ''Mark in use'' True) (\<lambda>a.
                                       if a then mark_inode nr else ret ())
                                else modify (\<lambda>s. s\<lparr>errors_uncorrected := True\<rparr>))))
                     (bnd (Inode_at nr) (\<lambda>inode. classify (i_mode inode)))
               else ret ())
            (thn (count_inode nr) (ret (Some nr))))"

definition get_inode2 :: "nat \<Rightarrow> nat option m" where
  "get_inode2 nr =
     bnd (gets (\<lambda>s. s)) (\<lambda>s.
     if nr = 0 \<or> INODES s < nr then ret None
     else thn (if inode_count s nr = 0
               then thn (if inode_in_use s nr then ret ()
                         else thn get_current_name
                             (thn (printf ''Inode %d marked unused, but used for file %s'')
                               (if repair s
                                then bnd (ask ''Mark in use'' True) (\<lambda>a.
                                       if a then mark_inode nr
                                       else modify (\<lambda>s. s\<lparr>errors_uncorrected := True\<rparr>))
                                else ret ())))
                     (bnd (Inode2_at nr) (\<lambda>inode. classify (i_mode inode)))
               else ret ())
            (thn (count_inode nr) (ret (Some nr))))"

definition check_root :: "unit m" where
  "check_root =
     bnd (Inode_at ROOT_INO) (\<lambda>inode.
     if S_ISDIR (i_mode inode) then ret () else die ''root inode isn't a directory'')"

definition check_root2 :: "unit m" where
  "check_root2 =
     bnd (Inode2_at ROOT_INO) (\<lambda>inode.
     if S_ISDIR (i_mode inode) then ret () else die ''root inode isn't a directory'')"

subsection \<open>Counting the zones of a file\<close>

text \<open>
  \<^verbatim>\<open>add_zone\<close> (lines 783-814) and \<^verbatim>\<open>add_zone2\<close> (lines 816-847) are the same text.
  The result is the value returned, the new \<^verbatim>\<open>*znr\<close> and the new \<^verbatim>\<open>*corrected\<close>.
\<close>

definition add_zone_of :: "'a::len word \<Rightarrow> flagp \<Rightarrow> (int \<times> 'a word \<times> flagp) m" where
  "add_zone_of znr corrected =
     bnd (check_zone_nr_of znr corrected) (\<lambda>(block, znr, corrected).
     if block = 0 then ret (0, znr, corrected)
     else bnd (zone_count_at block) (\<lambda>c.
       bnd (if c = 0 then ret (block, znr, corrected)
            else thn get_current_name
                (thn (printf ''Block has been used before. Now in file %s.'')
                (bnd (ask ''Clear'' True) (\<lambda>a.
                   if a then bnd (set_flag corrected) (\<lambda>corrected. ret (0, 0, corrected))
                   else ret (block, znr, corrected))))) (\<lambda>(block, znr, corrected).
       if block = 0 then ret (0, znr, corrected)
       else bnd (zone_in_use block) (\<lambda>u.
         thn (if u then ret ()
              else thn get_current_name
                  (thn (printf ''Block %d in file %s is marked not in use.'')
                  (bnd (ask ''Correct'' True) (\<lambda>a. if a then mark_zone block else ret ()))))
        (thn (zone_count_incr block)
          (ret (block, znr, corrected)))))))"

definition add_zone :: "16 word \<Rightarrow> flagp \<Rightarrow> (int \<times> 16 word \<times> flagp) m" where
  "add_zone = add_zone_of"

definition add_zone2 :: "32 word \<Rightarrow> flagp \<Rightarrow> (int \<times> 32 word \<times> flagp) m" where
  "add_zone2 = add_zone_of"

text \<open>
  The loop \<^verbatim>\<open>for (i = 0; i < n; i++) f(i + (T *) blk, &chg_blk)\<close> of the functions
  \<^verbatim>\<open>add_zone_ind\<close>, \<^verbatim>\<open>add_zone_dind\<close> and \<^verbatim>\<open>add_zone_tind2\<close>: \<^verbatim>\<open>rd\<close> and \<^verbatim>\<open>wr\<close>
  read and store entry \<^verbatim>\<open>i\<close> of the block.
\<close>

primrec entries_loop ::
  "('z \<Rightarrow> flagp \<Rightarrow> ('z \<times> flagp) m) \<Rightarrow> (block \<Rightarrow> nat \<Rightarrow> 'z) \<Rightarrow> (block \<Rightarrow> nat \<Rightarrow> 'z \<Rightarrow> block)
     \<Rightarrow> nat list \<Rightarrow> block \<Rightarrow> flagp \<Rightarrow> (block \<times> flagp) m" where
  "entries_loop f rd wr [] blk chg = ret (blk, chg)"
| "entries_loop f rd wr (i # rest) blk chg =
     bnd (f (rd blk i) chg) (\<lambda>(z, chg). entries_loop f rd wr rest (wr blk i z) chg)"

text \<open>
  The common shape of \<^verbatim>\<open>add_zone_ind\<close>, \<^verbatim>\<open>add_zone_dind\<close>, \<^verbatim>\<open>add_zone_ind2\<close>,
  \<^verbatim>\<open>add_zone_dind2\<close> and \<^verbatim>\<open>add_zone_tind2\<close> (lines 849-927): \<^verbatim>\<open>az\<close> is \<^verbatim>\<open>add_zone\<close>
  or \<^verbatim>\<open>add_zone2\<close>, \<^verbatim>\<open>f\<close> the function called on each of the \<^verbatim>\<open>n\<close> entries. The
  result is the new \<^verbatim>\<open>*znr\<close> and the new \<^verbatim>\<open>*corrected\<close>.
\<close>

definition indirect_of ::
  "('z \<Rightarrow> flagp \<Rightarrow> (int \<times> 'z \<times> flagp) m) \<Rightarrow> ('z \<Rightarrow> flagp \<Rightarrow> ('z \<times> flagp) m)
     \<Rightarrow> (block \<Rightarrow> nat \<Rightarrow> 'z) \<Rightarrow> (block \<Rightarrow> nat \<Rightarrow> 'z \<Rightarrow> block) \<Rightarrow> nat
     \<Rightarrow> 'z \<Rightarrow> flagp \<Rightarrow> ('z \<times> flagp) m" where
  "indirect_of az f rd wr n znr corrected =
     bnd (az znr corrected) (\<lambda>(block, znr, corrected).
     if block = 0 then ret (znr, corrected)
     else bnd (read_block (word_of_int block)) (\<lambda>blk.
          bnd (entries_loop f rd wr [0 ..< n] blk (Local False)) (\<lambda>(blk, chg_blk).
          bnd (flag_set chg_blk) (\<lambda>c.
          thn (if c then write_block (word_of_int block) blk else ret ())
            (ret (znr, corrected))))))"

definition rd16 :: "block \<Rightarrow> nat \<Rightarrow> 16 word" where
  "rd16 blk i = u16_at blk (2 * i)"

definition wr16 :: "block \<Rightarrow> nat \<Rightarrow> 16 word \<Rightarrow> block" where
  "wr16 blk i z = put16 blk (2 * i) z"

definition rd32 :: "block \<Rightarrow> nat \<Rightarrow> 32 word" where
  "rd32 blk i = u32_at blk (4 * i)"

definition wr32 :: "block \<Rightarrow> nat \<Rightarrow> 32 word \<Rightarrow> block" where
  "wr32 blk i z = put32 blk (4 * i) z"

definition add_zone_entry :: "16 word \<Rightarrow> flagp \<Rightarrow> (16 word \<times> flagp) m" where
  \<comment> \<open>\<^verbatim>\<open>add_zone(..., &chg_blk);\<close> as a statement: the value returned is dropped\<close>
  "add_zone_entry znr corrected = bnd (add_zone znr corrected) (\<lambda>(_, znr, corrected). ret (znr, corrected))"

definition add_zone_entry2 :: "32 word \<Rightarrow> flagp \<Rightarrow> (32 word \<times> flagp) m" where
  "add_zone_entry2 znr corrected = bnd (add_zone2 znr corrected) (\<lambda>(_, znr, corrected). ret (znr, corrected))"

definition add_zone_ind :: "16 word \<Rightarrow> flagp \<Rightarrow> (16 word \<times> flagp) m" where
  "add_zone_ind = indirect_of add_zone add_zone_entry rd16 wr16 (BLOCK_SIZE div 2)"

definition add_zone_ind2 :: "32 word \<Rightarrow> flagp \<Rightarrow> (32 word \<times> flagp) m" where
  "add_zone_ind2 = indirect_of add_zone2 add_zone_entry2 rd32 wr32 (BLOCK_SIZE div 4)"

definition add_zone_dind :: "16 word \<Rightarrow> flagp \<Rightarrow> (16 word \<times> flagp) m" where
  "add_zone_dind = indirect_of add_zone add_zone_ind rd16 wr16 (BLOCK_SIZE div 2)"

definition add_zone_dind2 :: "32 word \<Rightarrow> flagp \<Rightarrow> (32 word \<times> flagp) m" where
  "add_zone_dind2 = indirect_of add_zone2 add_zone_ind2 rd32 wr32 (BLOCK_SIZE div 4)"

definition add_zone_tind2 :: "32 word \<Rightarrow> flagp \<Rightarrow> (32 word \<times> flagp) m" where
  "add_zone_tind2 = indirect_of add_zone2 add_zone_dind2 rd32 wr32 (BLOCK_SIZE div 4)"

text \<open>
  \<^verbatim>\<open>f(inode->i_zone + k, &changed)\<close> on inode \<^verbatim>\<open>ino\<close> of the table, for
  \<^verbatim>\<open>check_zones\<close> and \<^verbatim>\<open>check_zones2\<close>.
\<close>

definition on_zone :: "(16 word \<Rightarrow> flagp \<Rightarrow> (16 word \<times> flagp) m) \<Rightarrow> nat \<Rightarrow> nat \<Rightarrow> unit m" where
  "on_zone f ino k =
     bnd (gets (\<lambda>s. i_zone (Inode s ino) k)) (\<lambda>z.
     bnd (f z Global_changed) (\<lambda>(z', _).
     modify (\<lambda>s. s\<lparr>Inode := (Inode s)(ino := set_zone k z' (Inode s ino))\<rparr>)))"

definition on_zone2 :: "(32 word \<Rightarrow> flagp \<Rightarrow> (32 word \<times> flagp) m) \<Rightarrow> nat \<Rightarrow> nat \<Rightarrow> unit m" where
  "on_zone2 f ino k =
     bnd (gets (\<lambda>s. i_zone (Inode2 s ino) k)) (\<lambda>z.
     bnd (f z Global_changed) (\<lambda>(z', _).
     modify (\<lambda>s. s\<lparr>Inode2 := (Inode2 s)(ino := set_zone k z' (Inode2 s ino))\<rparr>)))"

primrec direct_zones :: "(nat \<Rightarrow> unit m) \<Rightarrow> nat list \<Rightarrow> unit m" where
  \<comment> \<open>\<^verbatim>\<open>for (i = 0; i < 7; i++) add_zone(i + inode->i_zone, &changed);\<close>\<close>
  "direct_zones f [] = ret ()"
| "direct_zones f (k # rest) = thn (f k) (direct_zones f rest)"

definition check_zones :: "nat \<Rightarrow> unit m" where
  "check_zones i =
     bnd (gets (\<lambda>s. s)) (\<lambda>s.
     if i = 0 \<or> INODES s < i then ret ()
     else if 1 < unat (inode_count s i) then ret ()
     else bnd (Inode_at i) (\<lambda>inode.
       if S_ISDIR (i_mode inode) \<or> S_ISREG (i_mode inode) \<or> S_ISLNK (i_mode inode)
       then thn (direct_zones (on_zone add_zone_entry i) [0 ..< 7])
           (thn (on_zone add_zone_ind i 7)
                (on_zone add_zone_dind i 8))
       else ret ()))"

definition check_zones2 :: "nat \<Rightarrow> unit m" where
  "check_zones2 i =
     bnd (gets (\<lambda>s. s)) (\<lambda>s.
     if i = 0 \<or> INODES s < i then ret ()
     else if 1 < unat (inode_count s i) then ret ()
     else bnd (Inode2_at i) (\<lambda>inode.
       if S_ISDIR (i_mode inode) \<or> S_ISREG (i_mode inode) \<or> S_ISLNK (i_mode inode)
       then thn (direct_zones (on_zone2 add_zone_entry2 i) [0 ..< 7])
           (thn (on_zone2 add_zone_ind2 i 7)
           (thn (on_zone2 add_zone_dind2 i 8)
                (on_zone2 add_zone_tind2 i 9)))
       else ret ()))"

subsection \<open>The directory traversal\<close>

text \<open>
  \<^verbatim>\<open>if (name_depth < MAX_DEPTH) strncpy(name_list[name_depth], name, namelen);\<close> for
  the name at index \<^verbatim>\<open>p\<close> of the block \<^verbatim>\<open>blk\<close>: \<^verbatim>\<open>strncpy\<close> reads the name up to its
  first NUL and writes \<^verbatim>\<open>namelen\<close> bytes to the row.
\<close>

definition store_name :: "block \<Rightarrow> nat \<Rightarrow> unit m" where
  "store_name blk p = (\<lambda>s.
     if name_depth s < MAX_DEPTH
     then (case c_chars blk p (BLOCK_SIZE - p) (namelen s) of
        (t, over) \<Rightarrow>
          if over then (Fault (Block_index BLOCK_SIZE), s)
          else if NAME_MAX + 1 < namelen s then (Fault (Name_row_index (NAME_MAX + 1)), s)
          else (Ret (), s\<lparr>name_list := (name_list s)
                  (name_depth s := c_strncpy t (namelen s) (name_list s (name_depth s)))\<rparr>))
     else (Ret (), s))"

text \<open>
  \<^verbatim>\<open>printf("... '%.*s'", ..., namelen, name)\<close>, which reads the name at index \<^verbatim>\<open>p\<close> of
  the block, and \<^verbatim>\<open>strcmp(lit, name) == 0\<close> on that name.
\<close>

definition print_name :: "string \<Rightarrow> block \<Rightarrow> nat \<Rightarrow> unit m" where
  "print_name fmt blk p =
     bnd (gets namelen) (\<lambda>n.
     if snd (c_chars blk p (BLOCK_SIZE - p) n) then fault (Block_index BLOCK_SIZE)
     else printf fmt)"

definition entry_named :: "8 word list \<Rightarrow> block \<Rightarrow> nat \<Rightarrow> bool m" where
  "entry_named lit blk p =
     (case c_strcmp lit blk p BLOCK_SIZE of
        None \<Rightarrow> fault (Block_index BLOCK_SIZE)
      | Some b \<Rightarrow> ret b)"

definition depth_incr :: "unit m" where
  "depth_incr = modify (\<lambda>s. s\<lparr>name_depth := name_depth s + 1\<rparr>)"

definition depth_decr :: "unit m" where
  "depth_decr = modify (\<lambda>s. s\<lparr>name_depth := name_depth s - 1\<rparr>)"

definition bad_directory :: "string \<Rightarrow> unit m" where
  "bad_directory msg =
     thn get_current_name
       (thn (printf msg) (modify (\<lambda>s. s\<lparr>errors_uncorrected := True\<rparr>)))"

text \<open>
  \<^verbatim>\<open>check_file\<close> (lines 966-1031) and \<^verbatim>\<open>check_file2\<close> (lines 1033-1098) up to the call
  of \<^verbatim>\<open>check_zones\<close>: \<^verbatim>\<open>mb\<close>, \<^verbatim>\<open>gi\<close> and \<^verbatim>\<open>cz\<close> are \<^verbatim>\<open>map_block\<close>,
  \<^verbatim>\<open>get_inode\<close> and \<^verbatim>\<open>check_zones\<close> of the variant, and \<^verbatim>\<open>copy2\<close> says whether the
  second \<^verbatim>\<open>strncpy\<close> (lines 1012-1013) is there: \<^verbatim>\<open>check_file2\<close> does not have it.
  The directory \<^verbatim>\<open>dir\<close> is given by its inode number. The result is nothing where the
  C function has returned, and the entry's inode number where it goes on to
  \<^verbatim>\<open>if (inode && S_ISDIR(inode->i_mode))\<close>. The entry is read at index
  \<^verbatim>\<open>offset % BLOCK_SIZE\<close> of the block: its inode number takes two bytes there.
\<close>

definition check_file_head ::
  "(nat \<Rightarrow> 32 word \<Rightarrow> int m) \<Rightarrow> (nat \<Rightarrow> nat option m) \<Rightarrow> (nat \<Rightarrow> unit m) \<Rightarrow> bool
     \<Rightarrow> nat \<Rightarrow> 32 word \<Rightarrow> nat option m" where
  "check_file_head mb gi cz copy2 dir offset =
     bnd (mb dir (offset div 1024)) (\<lambda>block.
     bnd (read_block (word_of_int block)) (\<lambda>blk.
     if BLOCK_SIZE < unat (offset mod 1024) + 2 then fault (Block_index BLOCK_SIZE)
     else
     bnd (gets INODES) (\<lambda>inodes.
     bnd (if inodes < unat (u16_at blk (unat (offset mod 1024)))
          then thn get_current_name
              (thn (print_name ''The directory %s contains a bad inode number for file %.*s.''
                      blk (unat (offset mod 1024) + 2))
              (bnd (ask '' Remove'' True) (\<lambda>a.
                 if a
                 then thn (write_block (word_of_int block) (put16 blk (unat (offset mod 1024)) 0))
                        (ret (0, put16 blk (unat (offset mod 1024)) 0))
                 else ret (0, blk))))
          else ret (unat (u16_at blk (unat (offset mod 1024))), blk)) (\<lambda>(ino, blk).
     thn (store_name blk (unat (offset mod 1024) + 2))
    (thn depth_incr
    (bnd (gi ino) (\<lambda>inode.
     thn depth_decr
    (bnd (if offset = 0
          then (if inode = None
                then thn (bad_directory ''%s: bad directory: . isn't first'') (ret False)
                else bnd (entry_named [dot] blk (unat (offset mod 1024) + 2)) (\<lambda>is_dot.
                  if is_dot then ret True
                  else thn (bad_directory ''%s: bad directory: . isn't first'') (ret False)))
          else ret False) (\<lambda>returned.
     if returned then ret None
     else bnd (gets dirsize) (\<lambda>ds.
     bnd (if offset = of_nat ds
          then (if inode = None
                then thn (bad_directory ''%s: bad directory: .. isn't second'') (ret False)
                else bnd (entry_named [dot, dot] blk (unat (offset mod 1024) + 2)) (\<lambda>is_dotdot.
                  if is_dotdot then ret True
                  else thn (bad_directory ''%s: bad directory: .. isn't second'') (ret False)))
          else ret False) (\<lambda>returned.
     if returned \<or> inode = None then ret None
     else thn (if copy2 then store_name blk (unat (offset mod 1024) + 2) else ret ())
         (thn depth_incr
         (thn (bnd (gets list_opt) (\<lambda>l.
                 if l then thn get_current_name (printf ''%6d %07o %3d %s'') else ret ()))
         (thn (cz ino)
              (ret (Some ino))))))))))))))))"

text \<open>
  \<^verbatim>\<open>recursive_check\<close> (lines 1100-1116), its loop over the entries and the end of
  \<^verbatim>\<open>check_file\<close> (lines 1027-1030) call one another; \<^verbatim>\<open>recursive_check2\<close> and
  \<^verbatim>\<open>check_file2\<close> are the same text on \<^verbatim>\<open>Inode2\<close>. \<^verbatim>\<open>hdr\<close> is the first part of
  \<^verbatim>\<open>check_file\<close>, \<^verbatim>\<open>md\<close> and \<^verbatim>\<open>sz\<close> read \<^verbatim>\<open>i_mode\<close> and \<^verbatim>\<open>i_size\<close> of an inode of
  the table. A directory that is its own descendant makes the C recursion endless:
  the first argument is the fuel, and a call that has none left ends in \<^verbatim>\<open>Timeout\<close>.
\<close>

fun recursive_check_of ::
  "(nat \<Rightarrow> 32 word \<Rightarrow> nat option m) \<Rightarrow> (nat \<Rightarrow> 16 word m) \<Rightarrow> (nat \<Rightarrow> 32 word m)
     \<Rightarrow> nat \<Rightarrow> nat \<Rightarrow> unit m"
and entries_of ::
  "(nat \<Rightarrow> 32 word \<Rightarrow> nat option m) \<Rightarrow> (nat \<Rightarrow> 16 word m) \<Rightarrow> (nat \<Rightarrow> 32 word m)
     \<Rightarrow> nat \<Rightarrow> nat \<Rightarrow> 32 word \<Rightarrow> unit m"
and check_file_of ::
  "(nat \<Rightarrow> 32 word \<Rightarrow> nat option m) \<Rightarrow> (nat \<Rightarrow> 16 word m) \<Rightarrow> (nat \<Rightarrow> 32 word m)
     \<Rightarrow> nat \<Rightarrow> nat \<Rightarrow> 32 word \<Rightarrow> unit m" where
  "recursive_check_of hdr md sz 0 ino = (\<lambda>s. (Timeout, s))"
| "recursive_check_of hdr md sz (Suc fuel) ino =
     bnd (md ino) (\<lambda>mode.
     if S_ISDIR mode
     then bnd (sz ino) (\<lambda>i_size.
          bnd (gets dirsize) (\<lambda>ds.
          thn (if unat i_size < 2 * ds then bad_directory ''%s: bad directory: size < 32''
               else ret ())
              (entries_of hdr md sz fuel ino 0)))
     else die ''internal error'')"
| "entries_of hdr md sz 0 ino offset = (\<lambda>s. (Timeout, s))"
| "entries_of hdr md sz (Suc fuel) ino offset =
     bnd (sz ino) (\<lambda>i_size.
     if offset < i_size
     then thn (check_file_of hdr md sz fuel ino offset)
            (bnd (gets dirsize) (\<lambda>ds. entries_of hdr md sz fuel ino (offset + of_nat ds)))
     else ret ())"
| "check_file_of hdr md sz 0 dir offset = (\<lambda>s. (Timeout, s))"
| "check_file_of hdr md sz (Suc fuel) dir offset =
     bnd (hdr dir offset) (\<lambda>r.
     case r of
       None \<Rightarrow> ret ()
     | Some ino \<Rightarrow>
         bnd (md ino) (\<lambda>mode.
         thn (if S_ISDIR mode then recursive_check_of hdr md sz fuel ino else ret ())
             depth_decr))"

definition mode_of :: "nat \<Rightarrow> 16 word m" where
  "mode_of ino = bnd (Inode_at ino) (\<lambda>i. ret (i_mode i))"

definition mode_of2 :: "nat \<Rightarrow> 16 word m" where
  "mode_of2 ino = bnd (Inode2_at ino) (\<lambda>i. ret (i_mode i))"

definition size_of :: "nat \<Rightarrow> 32 word m" where
  "size_of ino = bnd (Inode_at ino) (\<lambda>i. ret (i_size i))"

definition size_of2 :: "nat \<Rightarrow> 32 word m" where
  "size_of2 ino = bnd (Inode2_at ino) (\<lambda>i. ret (i_size i))"

definition check_file :: "nat \<Rightarrow> nat \<Rightarrow> 32 word \<Rightarrow> unit m" where
  "check_file =
     check_file_of (check_file_head map_block get_inode check_zones True) mode_of size_of"

definition check_file2 :: "nat \<Rightarrow> nat \<Rightarrow> 32 word \<Rightarrow> unit m" where
  "check_file2 =
     check_file_of (check_file_head map_block2 get_inode2 check_zones2 False) mode_of2 size_of2"

definition recursive_check :: "nat \<Rightarrow> nat \<Rightarrow> unit m" where
  "recursive_check =
     recursive_check_of (check_file_head map_block get_inode check_zones True) mode_of size_of"

definition recursive_check2 :: "nat \<Rightarrow> nat \<Rightarrow> unit m" where
  "recursive_check2 =
     recursive_check_of (check_file_head map_block2 get_inode2 check_zones2 False)
       mode_of2 size_of2"

subsection \<open>Reconciliation\<close>

text \<open>
  \<^verbatim>\<open>bad_zone(int i)\<close>: \<^verbatim>\<open>BLOCK_SIZE*i\<close> is a product of two \<^verbatim>\<open>int\<close>, which overflows
  from \<^verbatim>\<open>i = 2^21\<close> on.
\<close>

definition bad_zone :: "nat \<Rightarrow> bool m" where
  "bad_zone i =
     (if 2 ^ 21 \<le> i then fault Signed_overflow
      else bnd (gets dev) (\<lambda>d.
        if seek_fails d (BLOCK_SIZE * i) then die ''seek failed in bad_zone''
        else ret (read_fails d (BLOCK_SIZE * i))))"

text \<open>
  The body of the first loop of \<^verbatim>\<open>check_counts\<close> (lines 1149-1179) and of
  \<^verbatim>\<open>check_counts2\<close> (lines 1204-1233), the same text on \<^verbatim>\<open>Inode\<close> and on
  \<^verbatim>\<open>Inode2\<close>: \<^verbatim>\<open>md\<close> reads \<^verbatim>\<open>i_mode\<close>, \<^verbatim>\<open>clr\<close> sets it to 0, \<^verbatim>\<open>nl\<close> reads
  \<^verbatim>\<open>i_nlinks\<close> and \<^verbatim>\<open>snl\<close> sets it.
\<close>

definition check_inode_count ::
  "(nat \<Rightarrow> 16 word m) \<Rightarrow> (nat \<Rightarrow> unit m) \<Rightarrow> (nat \<Rightarrow> nat m) \<Rightarrow> (nat \<Rightarrow> 8 word \<Rightarrow> unit m)
     \<Rightarrow> nat \<Rightarrow> unit m" where
  "check_inode_count md clr nl snl i =
     bnd (gets (\<lambda>s. s)) (\<lambda>s.
     bnd (md i) (\<lambda>mode.
     thn (if \<not> inode_in_use s i \<and> mode \<noteq> 0 \<and> warn_mode s
          then thn (printf ''Inode %d mode not cleared.'')
                 (bnd (ask ''Clear'' True) (\<lambda>a.
                    if a then thn (clr i) (modify (\<lambda>s. s\<lparr>changed := True\<rparr>)) else ret ()))
          else ret ())
     (if inode_count s i = 0
      then (if inode_in_use s i
            then thn (printf ''Inode %d not used, marked used in the bitmap.'')
                   (bnd (ask ''Clear'' True) (\<lambda>a. if a then unmark_inode i else ret ()))
            else ret ())
      else thn (if inode_in_use s i then ret ()
                else thn (printf ''Inode %d used, marked unused in the bitmap.'')
                       (bnd (ask ''Set'' True) (\<lambda>a. if a then mark_inode i else ret ())))
          (bnd (nl i) (\<lambda>nlinks.
             if nlinks = unat (inode_count s i) then ret ()
             else thn (printf ''Inode %d (mode = %07o), i_nlinks=%d, counted=%d.'')
                    (bnd (ask ''Set i_nlinks to count'' True) (\<lambda>a.
                       if a then thn (snl i (inode_count s i))
                                   (modify (\<lambda>s. s\<lparr>changed := True\<rparr>))
                       else ret ())))))))"

text \<open>
  The body of the second loop (lines 1180-1197 and 1234-1252). The first test compares
  the \<^verbatim>\<open>int\<close> value of \<^verbatim>\<open>zone_in_use(i)\<close>, 0 or 1, with the count.
\<close>

definition check_zone_count :: "nat \<Rightarrow> unit m" where
  "check_zone_count i =
     bnd (zone_in_use (int i)) (\<lambda>u.
     bnd (zone_count_at (int i)) (\<lambda>c.
     if (if u then 1 else 0) = unat c then ret ()
     else if c = 0
     then bnd (bad_zone i) (\<lambda>bad.
            if bad then ret ()
            else thn (printf ''Zone %d: marked in use, no file uses it.'')
                   (bnd (ask ''Unmark'' True) (\<lambda>a. if a then unmark_zone (int i) else ret ())))
     else if u then printf ''Zone %d: in use, counted=%d''
     else printf ''Zone %d: not in use, counted=%d''))"

primrec for_each :: "(nat \<Rightarrow> unit m) \<Rightarrow> nat list \<Rightarrow> unit m" where
  "for_each f [] = ret ()"
| "for_each f (i # rest) = thn (f i) (for_each f rest)"

definition clear_mode :: "nat \<Rightarrow> unit m" where
  "clear_mode i = modify (\<lambda>s. s\<lparr>Inode := (Inode s)(i := (Inode s i)\<lparr>i_mode := 0\<rparr>)\<rparr>)"

definition clear_mode2 :: "nat \<Rightarrow> unit m" where
  "clear_mode2 i = modify (\<lambda>s. s\<lparr>Inode2 := (Inode2 s)(i := (Inode2 s i)\<lparr>i_mode := 0\<rparr>)\<rparr>)"

definition nlinks_of :: "nat \<Rightarrow> nat m" where
  "nlinks_of i = bnd (Inode_at i) (\<lambda>inode. ret (unat (i_nlinks inode)))"

definition nlinks_of2 :: "nat \<Rightarrow> nat m" where
  "nlinks_of2 i = bnd (Inode2_at i) (\<lambda>inode. ret (unat (i_nlinks inode)))"

definition set_nlinks :: "nat \<Rightarrow> 8 word \<Rightarrow> unit m" where
  "set_nlinks i c = modify (\<lambda>s. s\<lparr>Inode := (Inode s)(i := (Inode s i)\<lparr>i_nlinks := c\<rparr>)\<rparr>)"

definition set_nlinks2 :: "nat \<Rightarrow> 8 word \<Rightarrow> unit m" where
  "set_nlinks2 i c =
     modify (\<lambda>s. s\<lparr>Inode2 := (Inode2 s)(i := (Inode2 s i)\<lparr>i_nlinks := ucast c\<rparr>)\<rparr>)"

definition check_counts :: "unit m" where
  "check_counts =
     bnd (gets (\<lambda>s. (INODES s, FIRSTZONE s, ZONES s))) (\<lambda>(inodes, firstzone, zones).
     thn (for_each (check_inode_count mode_of clear_mode nlinks_of set_nlinks) [1 ..< inodes + 1])
         (for_each check_zone_count [firstzone ..< zones]))"

definition check_counts2 :: "unit m" where
  "check_counts2 =
     bnd (gets (\<lambda>s. (INODES s, FIRSTZONE s, ZONES s))) (\<lambda>(inodes, firstzone, zones).
     thn (for_each (check_inode_count mode_of2 clear_mode2 nlinks_of2 set_nlinks2)
            [1 ..< inodes + 1])
         (for_each check_zone_count [firstzone ..< zones]))"

definition clear_counts :: "unit m" where
  \<comment> \<open>the two \<^verbatim>\<open>memset\<close> calls of \<^verbatim>\<open>check\<close> and \<^verbatim>\<open>check2\<close>\<close>
  "clear_counts = modify (\<lambda>s. s\<lparr>inode_count := (\<lambda>_. 0), zone_count := (\<lambda>_. 0)\<rparr>)"

definition check :: "nat \<Rightarrow> unit m" where
  "check fuel =
     thn clear_counts
    (thn (check_zones ROOT_INO)
    (thn (recursive_check fuel ROOT_INO)
         check_counts))"

definition check2 :: "nat \<Rightarrow> unit m" where
  "check2 fuel =
     thn clear_counts
    (thn (check_zones2 ROOT_INO)
    (thn (recursive_check2 fuel ROOT_INO)
         check_counts2))"

subsection \<open>main\<close>

text \<open>
  The \<^verbatim>\<open>switch\<close> of the option loop (lines 1302-1311), the loop over the characters
  of one argument (\<^verbatim>\<open>while (*++argv[0])\<close>) and the loop over the arguments
  (\<^verbatim>\<open>while (argc-- > 1)\<close>).
\<close>

definition option_char :: "char \<Rightarrow> unit m" where
  "option_char c =
     (if c = CHR ''l'' then modify (\<lambda>s. s\<lparr>list_opt := True\<rparr>)
      else if c = CHR ''a'' then modify (\<lambda>s. s\<lparr>automatic := True, repair := True\<rparr>)
      else if c = CHR ''r'' then modify (\<lambda>s. s\<lparr>automatic := False, repair := True\<rparr>)
      else if c = CHR ''v'' then modify (\<lambda>s. s\<lparr>verbose := True\<rparr>)
      else if c = CHR ''s'' then modify (\<lambda>s. s\<lparr>show_opt := True\<rparr>)
      else if c = CHR ''m'' then modify (\<lambda>s. s\<lparr>warn_mode := True\<rparr>)
      else if c = CHR ''f'' then modify (\<lambda>s. s\<lparr>force := True\<rparr>)
      else usage)"

primrec option_chars :: "char list \<Rightarrow> unit m" where
  "option_chars [] = ret ()"
| "option_chars (c # cs) = thn (option_char c) (option_chars cs)"

definition argument :: "string \<Rightarrow> unit m" where
  "argument a =
     (if a \<noteq> [] \<and> hd a = CHR ''-'' then option_chars (tl a)
      else bnd (gets device_name) (\<lambda>d.
        if d = None then modify (\<lambda>s. s\<lparr>device_name := Some a\<rparr>) else usage))"

primrec arguments :: "string list \<Rightarrow> unit m" where
  "arguments [] = ret ()"
| "arguments (a # rest) = thn (argument a) (arguments rest)"

text \<open>
  The final report (lines 1374-1397), printed when \<^verbatim>\<open>verbose\<close> is set: the two loops
  over the bitmaps, and the two percentages, which divide by \<^verbatim>\<open>INODES\<close> and by
  \<^verbatim>\<open>ZONES\<close> (the figures themselves are not modelled).
\<close>

definition report :: "unit m" where
  "report =
     bnd (gets (\<lambda>s. (INODES s, FIRSTZONE s, ZONES s))) (\<lambda>(inodes, firstzone, zones).
     if inodes = 0 then fault Division_by_zero
     else thn (printf ''%6ld inodes used (%2ld%%) %6ld total'')
         (thn (for_each (\<lambda>i. bnd (zone_in_use (int i)) (\<lambda>_. ret ())) [firstzone ..< zones])
         (if zones = 0 then fault Division_by_zero
          else thn (printf ''%6ld  zones used (%2ld%%) %6ld total'')
                 (printf ''%6d regular files ... %6d files''))))"

text \<open>
  The values of the globals when \<^verbatim>\<open>main\<close> starts (lines 125-169). The buffers that
  are allocated later hold placeholders until the program fills them. \<^verbatim>\<open>input\<close> is what
  the terminal will send.
\<close>

definition no_super :: minix_super_block where
  "no_super = \<lparr>s_ninodes = 0, s_nzones = 0, s_imap_blocks = 0, s_zmap_blocks = 0,
     s_firstdatazone = 0, s_log_zone_size = 0, s_max_size = 0, s_magic = 0, s_state = 0,
     s_zones = 0\<rparr>"

definition no_inode :: "('z::zero, 'n::zero) inode" where
  "no_inode = \<lparr>i_mode = 0, i_nlinks = 0, i_size = 0, i_zone = (\<lambda>_. 0)\<rparr>"

definition init_state :: "device \<Rightarrow> char list \<Rightarrow> st" where
  "init_state d input =
     \<lparr>repair = False, automatic = False, verbose = True, list_opt = False, show_opt = False,
      warn_mode = False, force = True, device_name = None, changed = False,
      errors_uncorrected = False, dirsize = 16, namelen = 14, version2 = False,
      name_depth = 0, name_list = (\<lambda>_ _. 0), current_name = [],
      Super = no_super, inode_map = (\<lambda>_. False), zone_map = (\<lambda>_. False),
      Inode = (\<lambda>_. no_inode), Inode2 = (\<lambda>_. no_inode),
      inode_count = (\<lambda>_. 0), zone_count = (\<lambda>_. 0),
      dev = d, disk = dev_data d, wlog = [], stdin = input, out = []\<rparr>"

text \<open>
  The test of lines 1337-1339 that decides whether the check is skipped.
\<close>

definition marked_clean :: "st \<Rightarrow> bool" where
  "marked_clean s =
     (s_state (Super s) AND MINIX_ERROR_FS = 0 \<and> s_state (Super s) AND MINIX_VALID_FS \<noteq> 0
      \<and> \<not> force s)"

text \<open>
  \<^verbatim>\<open>main\<close> from line 1350 on: the tables, the check, the report, the write-back and
  the exit status.
\<close>

definition run_check :: "nat \<Rightarrow> nat m" where
  "run_check fuel =
     thn read_tables
    (thn (bnd (gets version2) (\<lambda>v2.
            if v2 then thn check_root2 (check2 fuel) else thn check_root (check fuel)))
    (thn (bnd (gets verbose) (\<lambda>v. if v then report else ret ()))
    (thn (bnd (gets (\<lambda>s. (changed s, repair s))) (\<lambda>(ch, rp).
            if ch then thn write_tables (printf ''FILE SYSTEM HAS BEEN CHANGED'')
            else if rp then write_super_block
            else ret ()))
         (gets (\<lambda>s. (if changed s then 3 else 0) + (if errors_uncorrected s then 4 else 0))))))"

text \<open>
  \<^verbatim>\<open>main\<close>. The value returned is the exit status. Left out: the program name, the
  two tests on the size of the inode structures (constants of the build),
  \<^verbatim>\<open>check_mount\<close> (compiled only under \<^verbatim>\<open>LINUX\<close>), the signal handlers and the
  terminal modes. \<^verbatim>\<open>is_tty\<close> stands for \<^verbatim>\<open>isatty(0) && isatty(1)\<close>.
\<close>

definition main :: "nat \<Rightarrow> string list \<Rightarrow> nat m" where
  "main fuel argv =
     (if length argv = 2 \<and> (argv ! 1 = ''-V'' \<or> argv ! 1 = ''--version'')
      then thn (printf ''%s (%s)'') (leave 0)
      else thn (arguments (tl argv))
          (bnd (gets (\<lambda>s. s)) (\<lambda>s.
           if device_name s = None then usage
           else if repair s \<and> \<not> automatic s \<and> \<not> is_tty (dev s)
           then die ''need terminal for interactive repairs''
           else if open_fails (dev s) then die ''unable to open %s: %s''
           else thn read_superblock
               (bnd (gets (\<lambda>s. s)) (\<lambda>s.
                if marked_clean s
                then thn (if repair s then printf ''%s is clean, no check.'' else ret ()) (ret 0)
                else thn (if force s then printf ''Forcing filesystem check on %s.''
                          else if repair s
                          then printf ''Filesystem on %s is dirty, needs checking.''
                          else ret ())
                       (run_check fuel))))))"

subsection \<open>Example images\<close>

text \<open>
  A small v1 image for running the model: one inode, the root directory, whose only
  block is zone 5 and holds the entries \<^verbatim>\<open>.\<close> and \<^verbatim>\<open>..\<close>; six zones, the first data
  zone being 5; the super-block is marked valid.
\<close>

definition example_root_dir :: block where
  "example_root_dir = (\<lambda>_. 0)(0 := 1, 2 := dot, 16 := 1, 18 := dot, 19 := dot)"

definition example_super :: minix_super_block where
  "example_super = \<lparr>s_ninodes = 1, s_nzones = 6, s_imap_blocks = 1, s_zmap_blocks = 1,
     s_firstdatazone = 5, s_log_zone_size = 0, s_max_size = 0, s_magic = MINIX_SUPER_MAGIC,
     s_state = MINIX_VALID_FS, s_zones = 0\<rparr>"

definition example_root :: minix_inode where
  "example_root = \<lparr>i_mode = 0x41ED, i_nlinks = 2, i_size = 32, i_zone = (\<lambda>_. 0)(0 := 5)\<rparr>"

definition example_device :: device where
  "example_device =
     \<lparr>dev_super = example_super, dev_inode_map = (\<lambda>i. i < 2), dev_zone_map = (\<lambda>i. i < 2),
      dev_Inode = (\<lambda>_. example_root), dev_Inode2 = (\<lambda>_. no_inode),
      dev_data = (\<lambda>_. zero_block)(5120 := example_root_dir),
      open_fails = False, seek_fails = (\<lambda>_. False), read_fails = (\<lambda>_. False),
      write_fails = (\<lambda>_. False), is_tty = True\<rparr>"

text \<open>
  The start state on the example image with the super-block in memory, as
  \<^verbatim>\<open>read_superblock\<close> leaves it: \<^verbatim>\<open>FIRSTZONE\<close> is 5 and \<^verbatim>\<open>ZONES\<close> is 6.
\<close>

definition example_loaded :: st where
  "example_loaded = (init_state example_device [])\<lparr>Super := example_super\<rparr>"

text \<open>
  The same image with the magic number of the 30-byte names and a root directory
  without a block; and the image above with a root directory whose link count is 3.
\<close>

definition example_device_30 :: device where
  "example_device_30 =
     example_device\<lparr>dev_super := example_super\<lparr>s_magic := MINIX_SUPER_MAGIC2\<rparr>,
                    dev_Inode := (\<lambda>_. example_root\<lparr>i_zone := (\<lambda>_. 0)\<rparr>)\<rparr>"


subsection \<open>Notions used by the statements\<close>

text \<open>
  The block \<^verbatim>\<open>get_dirsize\<close> inspects when it runs on the tables of the device: the
  first zone of the root directory as \<^verbatim>\<open>read_block\<close> delivers it (zeros for zone 0 and
  for a failed seek or read). \<^verbatim>\<open>v2\<close> says which view of the inode table is used.
\<close>

definition root_dir_block :: "st \<Rightarrow> bool \<Rightarrow> block" where
  "root_dir_block s v2 =
     (let z = (if v2 then i_zone (dev_Inode2 (dev s) ROOT_INO) 0
               else ucast (i_zone (dev_Inode (dev s) ROOT_INO) 0))
      in if z = 0 \<or> seek_fails (dev s) (block_offset z) \<or> read_fails (dev s) (block_offset z)
         then zero_block else disk s (block_offset z))"

text \<open>
  An argument that switches repairs on: an option argument with the letter \<^verbatim>\<open>a\<close> or
  \<^verbatim>\<open>r\<close>. A command line is read-only when no argument after the program name does.
\<close>

definition repair_option :: "string \<Rightarrow> bool" where
  "repair_option a = (a \<noteq> [] \<and> hd a = CHR ''-'' \<and> (CHR ''a'' \<in> set (tl a) \<or> CHR ''r'' \<in> set (tl a)))"

definition read_only :: "string list \<Rightarrow> bool" where
  "read_only argv = list_all (\<lambda>a. \<not> repair_option a) (tl argv)"

text \<open>The questions put to the operator so far.\<close>

definition asked :: "st \<Rightarrow> event list" where
  "asked s = filter (\<lambda>e. case e of Asked q d \<Rightarrow> True | Print str \<Rightarrow> False) (out s)"

section \<open>Running the model\<close>

text \<open>The state transformers applied to a state, as rewrite rules for evaluation.\<close>

lemma bnd_run:
  "bnd m f s = (case m s of (Ret a, s') \<Rightarrow> f a s' | (Exit n, s') \<Rightarrow> (Exit n, s')
     | (Fault x, s') \<Rightarrow> (Fault x, s') | (Timeout, s') \<Rightarrow> (Timeout, s'))"
  by (simp add: bnd_def)

lemma thn_run:
  "thn m k s = (case m s of (Ret a, s') \<Rightarrow> k s' | (Exit n, s') \<Rightarrow> (Exit n, s')
     | (Fault x, s') \<Rightarrow> (Fault x, s') | (Timeout, s') \<Rightarrow> (Timeout, s'))"
  by (simp add: thn_def bnd_def)

lemma ret_run: "ret a s = (Ret a, s)"
  by (simp add: ret_def)

lemma gets_run: "gets f s = (Ret (f s), s)"
  by (simp add: gets_def)

lemma modify_run: "modify f s = (Ret (), f s)"
  by (simp add: modify_def)

lemma fault_run: "fault x s = (Fault x, s)"
  by (simp add: fault_def)

lemma leave_run: "leave n s = (Exit n, s)"
  by (simp add: leave_def)

lemma printf_run: "printf str s = (Ret (), s\<lparr>out := out s @ [Print str]\<rparr>)"
  by (simp add: printf_def modify_def)

lemma die_run: "die msg s = (Exit 8, s\<lparr>out := out s @ [Print msg]\<rparr>)"
  by (simp add: die_def thn_run printf_run leave_run)

lemma usage_run:
  "usage s = (Exit 16, s\<lparr>out := out s @ [Print ''Usage: %s [-larvsmf] /dev/name'']\<rparr>)"
  by (simp add: usage_def thn_run printf_run leave_run)

lemmas runs = bnd_run thn_run ret_run gets_run modify_run fault_run leave_run printf_run
  die_run usage_run

text \<open>The definitions of the model, unfolded when it is run on a concrete state.\<close>

lemmas run_defs = zero_block_def INODES_def ZONES_def IMAPS_def ZMAPS_def FIRSTZONE_def
  ZONESIZE_def UPPER_def INODE_BLOCKS_def NORM_FIRSTZONE_def inode_in_use_def mark_inode_def
  unmark_inode_def zone_bit_def zone_in_use_def mark_zone_def unmark_zone_def zone_count_at_def
  zone_count_incr_def u16_at_def u32_at_def put16_def put32_def is_dotdot_def c_chars_def
  c_strncpy_def get_current_name_def ask_prompt_def ask_repair_def ask_def set_flag_def
  flag_set_def c_int_def check_zone_nr_of_def check_zone_nr_def check_zone_nr2_def
  block_offset_def read_error_def read_block_def dev_write_def write_block_def set_zone_def
  check_inode_zone_def check_inode_zone2_def map_entry_def map_entry2_def map_block_def
  map_block2_def write_super_block_def write_tables_def Inode_at_def Inode2_at_def S_ISDIR_def
  S_ISREG_def S_ISCHR_def S_ISBLK_def S_ISLNK_def S_ISSOCK_def S_ISFIFO_def dirsize_scan_def
  get_dirsize_def set_variant_def read_superblock_def read_tables_def classify_def
  count_inode_def get_inode_def get_inode2_def check_root_def check_root2_def add_zone_of_def
  add_zone_def add_zone2_def indirect_of_def rd16_def wr16_def rd32_def wr32_def
  add_zone_entry_def add_zone_entry2_def add_zone_ind_def add_zone_ind2_def add_zone_dind_def
  add_zone_dind2_def add_zone_tind2_def on_zone_def on_zone2_def check_zones_def
  check_zones2_def store_name_def print_name_def entry_named_def depth_incr_def depth_decr_def
  bad_directory_def check_file_head_def mode_of_def mode_of2_def size_of_def size_of2_def
  check_file_def check_file2_def recursive_check_def recursive_check2_def bad_zone_def
  check_inode_count_def check_zone_count_def clear_mode_def clear_mode2_def nlinks_of_def
  nlinks_of2_def set_nlinks_def set_nlinks2_def check_counts_def check_counts2_def
  clear_counts_def check_def check2_def option_char_def argument_def report_def no_super_def
  no_inode_def init_state_def marked_clean_def run_check_def main_def example_root_dir_def
  example_super_def example_root_def example_device_def

section \<open>The name of the current file\<close>

text \<open>
  With at most \<^verbatim>\<open>MAX_DEPTH\<close> names on the stack and \<^verbatim>\<open>namelen\<close> at most
  \<^verbatim>\<open>NAME_MAX\<close>, \<^verbatim>\<open>get_current_name\<close> stays inside its buffers and returns.
\<close>

lemma c_chars_short:
  "n \<le> lim \<Longrightarrow> c_chars f p lim n = (t, over) \<Longrightarrow> length t \<le> n \<and> \<not> over"
proof -
  assume n: "n \<le> lim" and c: "c_chars f p lim n = (t, over)"
  have "length (takeWhile (\<lambda>c. c \<noteq> 0) (map f [p ..< p + min n lim])) \<le> length (map f [p ..< p + min n lim])"
    by (rule length_takeWhile_le)
  then show ?thesis
    using n c by (auto simp: c_chars_def Let_def)
qed

lemma render_names_ok:
  "\<forall>i \<in> set xs. i < MAX_DEPTH \<Longrightarrow> n \<le> NAME_MAX \<Longrightarrow>
   length q + length xs * (NAME_MAX + 1) \<le> MAX_DEPTH * (NAME_MAX + 1) \<Longrightarrow>
   \<exists>q'. render_names nl n xs q = Inr q' \<and> length q' \<le> length q + length xs * (NAME_MAX + 1)"
proof (induction xs arbitrary: q)
  case Nil
  then show ?case by simp
next
  case (Cons i xs)
  obtain t over where c: "c_chars (nl i) 0 (NAME_MAX + 1) n = (t, over)"
    by (cases "c_chars (nl i) 0 (NAME_MAX + 1) n")
  from Cons.prems(2) have "n \<le> NAME_MAX + 1"
    by simp
  from c_chars_short [OF this c] have t: "length t \<le> n" and o: "\<not> over"
    by simp_all
  let ?q = "q @ [slash] @ t"
  have len: "length ?q + length xs * (NAME_MAX + 1) \<le> length q + length (i # xs) * (NAME_MAX + 1)"
    using t Cons.prems(2) by simp
  with Cons.prems(3) have b: "length ?q + length xs * (NAME_MAX + 1) \<le> MAX_DEPTH * (NAME_MAX + 1)"
    by linarith
  from Cons.prems(1) have xs: "\<forall>i \<in> set xs. i < MAX_DEPTH" and i: "i < MAX_DEPTH"
    by simp_all
  from Cons.IH [OF xs Cons.prems(2) b] obtain q'
    where q': "render_names nl n xs ?q = Inr q'"
      and l: "length q' \<le> length ?q + length xs * (NAME_MAX + 1)"
    by blast
  have "\<not> MAX_DEPTH * (NAME_MAX + 1) + 1 < length ?q"
    using b by linarith
  then have "render_names nl n (i # xs) q = Inr q'"
    using i c o q' by simp
  moreover have "length q' \<le> length q + length (i # xs) * (NAME_MAX + 1)"
    using l len by linarith
  ultimately show ?case
    by blast
qed


text \<open>However it ends, \<^verbatim>\<open>get_current_name\<close> changes nothing but \<^verbatim>\<open>current_name\<close>.\<close>

lemma get_current_name_frame:
  "get_current_name s = (r, s') \<Longrightarrow> \<exists>cn. s' = s\<lparr>current_name := cn\<rparr>"
proof -
  assume g: "get_current_name s = (r, s')"
  have same: "s = s\<lparr>current_name := current_name s\<rparr>"
    by simp
  show ?thesis
  proof (cases "render_names (name_list s) (namelen s) [0 ..< name_depth s] []")
    case (Inl x)
    with g have "s' = s"
      by (simp add: get_current_name_def)
    with same show ?thesis
      by metis
  next
    case (Inr q)
    show ?thesis
    proof (cases "MAX_DEPTH * (NAME_MAX + 1) < length q")
      case True
      with g Inr have "s' = s"
        by (simp add: get_current_name_def)
      with same show ?thesis
        by metis
    next
      case False
      with g Inr show ?thesis
        by (auto simp: get_current_name_def)
    qed
  qed
qed

text \<open>A computation that returns has returned in each of its steps.\<close>

lemma bnd_RetE:
  "bnd m f s = (Ret a, s') \<Longrightarrow> \<exists>b s1. m s = (Ret b, s1) \<and> f b s1 = (Ret a, s')"
  by (simp add: bnd_def split: prod.splits outcome.splits)

lemma thn_RetE:
  "thn m k s = (Ret a, s') \<Longrightarrow> \<exists>b s1. m s = (Ret b, s1) \<and> k s1 = (Ret a, s')"
  by (simp add: thn_def bnd_def split: prod.splits outcome.splits)

lemma thn_modify: "thn (modify f) k s = k (f s)"
  by (simp add: thn_run modify_run)

text \<open>
  No option clears \<^verbatim>\<open>force\<close>, and \<^verbatim>\<open>read_superblock\<close> does not assign it.
\<close>

lemma option_char_force: "option_char c s = (r, s') \<Longrightarrow> force s \<Longrightarrow> force s'"
  by (auto simp: option_char_def runs split: if_splits)

lemma option_chars_force: "option_chars cs s = (r, s') \<Longrightarrow> force s \<Longrightarrow> force s'"
proof (induction cs arbitrary: s)
  case Nil
  then show ?case
    by (simp add: runs)
next
  case (Cons c cs)
  obtain r1 s1 where o: "option_char c s = (r1, s1)"
    by (cases "option_char c s")
  have f: "force s1"
    using option_char_force [OF o] Cons.prems by simp
  show ?case
  proof (cases r1)
    case (Ret u)
    then have "option_chars cs s1 = (r, s')"
      using Cons.prems o by (simp add: thn_run)
    then show ?thesis
      using Cons.IH f by blast
  qed (use Cons.prems o f in \<open>auto simp: thn_run\<close>)
qed

lemma argument_force: "argument a s = (r, s') \<Longrightarrow> force s \<Longrightarrow> force s'"
  by (auto simp: argument_def runs split: if_splits dest: option_chars_force)

lemma arguments_force: "arguments as s = (r, s') \<Longrightarrow> force s \<Longrightarrow> force s'"
proof (induction as arbitrary: s)
  case Nil
  then show ?case
    by (simp add: runs)
next
  case (Cons a as)
  obtain r1 s1 where o: "argument a s = (r1, s1)"
    by (cases "argument a s")
  have f: "force s1"
    using argument_force [OF o] Cons.prems by simp
  show ?case
  proof (cases r1)
    case (Ret u)
    then have "arguments as s1 = (r, s')"
      using Cons.prems o by (simp add: thn_run)
    then show ?thesis
      using Cons.IH f by blast
  qed (use Cons.prems o f in \<open>auto simp: thn_run\<close>)
qed

lemma read_superblock_force: "read_superblock s = (r, s') \<Longrightarrow> force s \<Longrightarrow> force s'"
  by (auto simp: read_superblock_def runs set_variant_def split: if_splits)

section \<open>The state flags written by write\_super\_block\<close>

lemma state_bits_set:
  "bit ((x OR 1) OR (2 :: 16 word)) n = (bit x n \<or> n = 0 \<or> n = 1)"
  by (auto simp: bit_or_iff bit_1_iff bit_2_iff)

lemma state_bits_clear:
  "bit ((x OR 1) AND NOT (2 :: 16 word)) n = ((bit x n \<or> n = 0) \<and> n \<noteq> 1)"
proof -
  have gen: "bit ((x OR 1) AND NOT y) n = ((bit x n \<or> n = 0) \<and> \<not> bit y n)"
    for y :: "16 word"
    by (auto simp: bit_or_iff bit_and_iff bit_not_iff bit_1_iff dest: bit_imp_le_length)
  have two: "bit (2 :: 16 word) n = (n = 1)"
    by (auto simp: bit_2_iff)
  show ?thesis
    unfolding gen [of 2] two by (rule refl)
qed

text \<open>
  Claim C5. After \<^verbatim>\<open>write_super_block\<close> has run, however it ends (it leaves the
  process when the seek or the write fails, after the field has been set), the state
  field of the in-memory super-block has \<^verbatim>\<open>MINIX_VALID_FS\<close> (bit 0) set, has
  \<^verbatim>\<open>MINIX_ERROR_FS\<close> (bit 1) set exactly when \<^verbatim>\<open>errors_uncorrected\<close> was set, and
  has every other bit as before.
\<close>

theorem write_super_block_state:
  "bit (s_state (Super (snd (write_super_block s)))) 0 \<and>
   bit (s_state (Super (snd (write_super_block s)))) 1 = errors_uncorrected s \<and>
   (\<forall>n. 2 \<le> n \<longrightarrow>
      bit (s_state (Super (snd (write_super_block s)))) n = bit (s_state (Super s)) n)"
proof -
  have st: "s_state (Super (snd (write_super_block s))) =
      (if errors_uncorrected s then (s_state (Super s) OR MINIX_VALID_FS) OR MINIX_ERROR_FS
       else (s_state (Super s) OR MINIX_VALID_FS) AND NOT MINIX_ERROR_FS)"
    by (simp add: write_super_block_def dev_write_def runs)
  show ?thesis
    unfolding st by (auto simp only: state_bits_set state_bits_clear split: if_splits)
qed

text \<open>
  The theorem at the start state on the example image, where no error is recorded:
  bit 0 is set, bit 1 is clear, bit 5 is as before.
\<close>

theorem write_super_block_state_witness:
  "bit (s_state (Super (snd (write_super_block (init_state example_device []))))) 0 \<and>
   \<not> bit (s_state (Super (snd (write_super_block (init_state example_device []))))) 1 \<and>
   (2 :: nat) \<le> 5 \<and>
   bit (s_state (Super (snd (write_super_block (init_state example_device []))))) 5 =
     bit (s_state (Super (init_state example_device []))) 5"
proof -
  have e: "\<not> errors_uncorrected (init_state example_device [])"
    by (simp add: init_state_def)
  have five: "(2 :: nat) \<le> 5"
    by simp
  show ?thesis
    using write_super_block_state [of "init_state example_device []"] e five by blast
qed

section \<open>Blocks that write\_block does not write\<close>




section \<open>Logical blocks of a version 2 file beyond the single indirect block\<close>

lemma bnd_fault: "bnd (fault x) f = fault x"
  by (rule ext) (simp add: bnd_def fault_def)

lemma map_block2_ranges:
  assumes a: "7 + 256 \<le> unat (n :: 32 word)"
  shows "\<not> n < 7" and "\<not> n - 7 < 256"
    and "unat n < 7 + 256 + 65536 \<Longrightarrow> \<not> 256 * 256 \<le> n - 7 - 256"
    and "7 + 256 + 65536 \<le> unat n \<Longrightarrow> 256 * 256 \<le> n - 7 - 256"
    and "unat n < 7 + 256 + 65536 \<Longrightarrow> unat ((n - 65799) div 65536) = 65535"
    and "unat ((n - 263) div 256) = (unat n - 263) div 256"
proof -
  have n: "263 \<le> unat n"
    using a by simp
  show "\<not> n < 7"
    using n by (simp add: word_less_nat_alt)
  have u7: "unat (n - 7) = unat n - 7"
    using n by (simp add: unat_sub word_le_nat_alt)
  have "256 \<le> unat n - 7"
    using n by arith
  then show "\<not> n - 7 < 256"
    by (simp add: word_less_nat_alt u7)
  have u263: "unat (n - 263) = unat n - 263"
    using n by (simp add: unat_sub word_le_nat_alt)
  have eq: "n - 7 - 256 = n - 263"
    by simp
  show "\<not> 256 * 256 \<le> n - 7 - 256" if "unat n < 7 + 256 + 65536"
  proof -
    have "unat n - 263 < 65536"
      using that n by arith
    then show ?thesis
      unfolding eq by (simp add: word_le_nat_alt u263)
  qed
  show "256 * 256 \<le> n - 7 - 256" if "7 + 256 + 65536 \<le> unat n"
  proof -
    have "65536 \<le> unat n - 263"
      using that by arith
    then show ?thesis
      unfolding eq by (simp add: word_le_nat_alt u263)
  qed
  show "unat ((n - 65799) div 65536) = 65535" if b: "unat n < 7 + 256 + 65536"
  proof -
    have w: "unat (n - 65799) = unat n + 4294901497"
      using n b by (simp add: unat_sub_if_size word_size)
    have "(unat n + 4294901497) div 65536 = 65535"
      using n b by (intro div_nat_eqI) simp_all
    then show ?thesis
      by (simp add: unat_div w)
  qed
  show "unat ((n - 263) div 256) = (unat n - 263) div 256"
    by (simp add: unat_div u263)
qed

text \<open>
  Claim C1. The claim gives the double indirect block \<^verbatim>\<open>zone[8]\<close> to the indices
  \<^verbatim>\<open>7 + 256 \<le> n < 7 + 256 + 65536\<close> and the triple indirect block \<^verbatim>\<open>zone[9]\<close> to every
  larger index, as \<^verbatim>\<open>map_block\<close> and \<^verbatim>\<open>check_zones2\<close> lay the zones out. The
  comparison in \<^verbatim>\<open>map_block2\<close> is the other way round, \<^verbatim>\<open>blknr >= 256 * 256\<close>. For
  \<^verbatim>\<open>7 + 256 \<le> n < 7 + 256 + 65536\<close> the code checks \<^verbatim>\<open>zone[9]\<close>, reads that block as
  \<^verbatim>\<open>tind\<close>, and, the unsigned \<^verbatim>\<open>blknr - 256 * 256\<close> having wrapped, takes entry 65535
  of its 256 entries. For \<^verbatim>\<open>n \<ge> 7 + 256 + 65536\<close> the code checks \<^verbatim>\<open>zone[8]\<close>, reads that
  block as \<^verbatim>\<open>dind\<close> and takes entry \<^verbatim>\<open>(n - 263) / 256\<close>, which is 256 or more. Both
  entries are outside the array: no index beyond the single indirect block is resolved.
\<close>

theorem map_block2_beyond_single:
  "(7 + 256 \<le> unat n \<and> unat n < 7 + 256 + 65536 \<longrightarrow>
      map_block2 ino n =
        bnd (check_inode_zone2 ino 9) (\<lambda>block.
        bnd (read_block (word_of_int block)) (\<lambda>tind. fault (Indirect_index 65535)))) \<and>
   (7 + 256 + 65536 \<le> unat n \<longrightarrow>
      BLOCK_SIZE div 4 \<le> (unat n - (7 + 256)) div 256 \<and>
      map_block2 ino n =
        bnd (check_inode_zone2 ino 8) (\<lambda>block.
        bnd (read_block (word_of_int block)) (\<lambda>dind.
          fault (Indirect_index ((unat n - (7 + 256)) div 256)))))"
proof (intro conjI impI)
  assume a: "7 + 256 \<le> unat n \<and> unat n < 7 + 256 + 65536"
  then have a1: "7 + 256 \<le> unat n" and a2: "unat n < 7 + 256 + 65536"
    by simp_all
  note r = map_block2_ranges(1,2) [OF a1] map_block2_ranges(3) [OF a1 a2]
    map_block2_ranges(5) [OF a1 a2]
  show "map_block2 ino n =
        bnd (check_inode_zone2 ino 9) (\<lambda>block.
        bnd (read_block (word_of_int block)) (\<lambda>tind. fault (Indirect_index 65535)))"
    using r by (simp add: map_block2_def Let_def map_entry2_def bnd_fault)
next
  assume a: "7 + 256 + 65536 \<le> unat n"
  then have a1: "7 + 256 \<le> unat n"
    by simp
  note r = map_block2_ranges(1,2) [OF a1] map_block2_ranges(4) [OF a1 a]
    map_block2_ranges(6) [OF a1]
  have "256 \<le> (unat n - 263) div 256"
  proof -
    have "65536 \<le> unat n - 263"
      using a by arith
    then have "65536 div 256 \<le> (unat n - 263) div 256"
      by (rule div_le_mono)
    then show ?thesis
      by simp
  qed
  then show "BLOCK_SIZE div 4 \<le> (unat n - (7 + 256)) div 256"
    and "map_block2 ino n =
        bnd (check_inode_zone2 ino 8) (\<lambda>block.
        bnd (read_block (word_of_int block)) (\<lambda>dind.
          fault (Indirect_index ((unat n - (7 + 256)) div 256))))"
    using r by (simp_all add: map_block2_def Let_def map_entry2_def bnd_fault)
qed

text \<open>
  The theorem at the first index of each range, 263 and 65799.
\<close>

theorem map_block2_beyond_single_witness:
  "7 + 256 \<le> unat (263 :: 32 word) \<and> unat (263 :: 32 word) < 7 + 256 + 65536 \<and>
   map_block2 1 263 =
     bnd (check_inode_zone2 1 9) (\<lambda>block.
     bnd (read_block (word_of_int block)) (\<lambda>tind. fault (Indirect_index 65535))) \<and>
   7 + 256 + 65536 \<le> unat (65799 :: 32 word) \<and>
   map_block2 1 65799 =
     bnd (check_inode_zone2 1 8) (\<lambda>block.
     bnd (read_block (word_of_int block)) (\<lambda>dind. fault (Indirect_index 256)))"
proof -
  have a: "7 + 256 \<le> unat (263 :: 32 word) \<and> unat (263 :: 32 word) < 7 + 256 + 65536"
    by simp
  have b: "7 + 256 + 65536 \<le> unat (65799 :: 32 word)"
    by simp
  have c: "(unat (65799 :: 32 word) - (7 + 256)) div 256 = 256"
    by simp
  have d: "map_block2 1 263 =
     bnd (check_inode_zone2 1 9) (\<lambda>block.
     bnd (read_block (word_of_int block)) (\<lambda>tind. fault (Indirect_index 65535)))"
    using map_block2_beyond_single [of 263 1] a by blast
  have e: "map_block2 1 65799 =
     bnd (check_inode_zone2 1 8) (\<lambda>block.
     bnd (read_block (word_of_int block)) (\<lambda>dind.
       fault (Indirect_index ((unat (65799 :: 32 word) - (7 + 256)) div 256))))"
    using map_block2_beyond_single [of 65799 1] b by blast
  show ?thesis
    using a b d e unfolding c by blast
qed

section \<open>The name stack beyond its fifty rows\<close>

lemma render_names_append:
  "render_names nl n (xs @ ys) q =
     (case render_names nl n xs q of Inl x \<Rightarrow> Inl x | Inr q' \<Rightarrow> render_names nl n ys q')"
  by (induction xs arbitrary: q) (auto split: prod.splits)

text \<open>
  Claim C9. The claim says that beyond 50 names the rendered path is cut to the first 50
  and that only rows of the stack are read. The code does not do this: \<^verbatim>\<open>check_file\<close>
  guards the \<^verbatim>\<open>strncpy\<close> into \<^verbatim>\<open>name_list\<close> by \<^verbatim>\<open>name_depth < MAX_DEPTH\<close> and
  increments \<^verbatim>\<open>name_depth\<close> without a guard, and the loop of \<^verbatim>\<open>get_current_name\<close> runs
  while \<^verbatim>\<open>i < name_depth\<close>. With more than \<^verbatim>\<open>MAX_DEPTH\<close> names counted (and names short
  enough for the first 50 rows to be rendered) \<^verbatim>\<open>get_current_name\<close> reads row
  \<^verbatim>\<open>name_list[MAX_DEPTH]\<close>, one past the array; and the steps of \<^verbatim>\<open>check_file\<close> on an
  entry met at depth \<^verbatim>\<open>MAX_DEPTH\<close> with listing on (store the name, count the depth,
  render the name) end in that read.
\<close>

theorem get_current_name_overflow:
  "(MAX_DEPTH < name_depth s \<and> namelen s \<le> NAME_MAX \<longrightarrow>
      get_current_name s = (Fault (Name_list_index MAX_DEPTH), s)) \<and>
   (name_depth s = MAX_DEPTH \<and> namelen s \<le> NAME_MAX \<longrightarrow>
      thn (store_name blk p) (thn depth_incr get_current_name) s =
        (Fault (Name_list_index MAX_DEPTH), s\<lparr>name_depth := MAX_DEPTH + 1\<rparr>))"
proof -
  have over: "get_current_name t = (Fault (Name_list_index MAX_DEPTH), t)"
    if d: "MAX_DEPTH < name_depth t" and n: "namelen t \<le> NAME_MAX" for t
  proof -
    have split: "[0 ..< name_depth t] =
        [0 ..< MAX_DEPTH] @ MAX_DEPTH # [Suc MAX_DEPTH ..< name_depth t]"
    proof -
      have "[0 ..< MAX_DEPTH + (name_depth t - MAX_DEPTH)] =
          [0 ..< MAX_DEPTH] @ [MAX_DEPTH ..< MAX_DEPTH + (name_depth t - MAX_DEPTH)]"
        by (rule upt_add_eq_append) simp
      moreover have "MAX_DEPTH + (name_depth t - MAX_DEPTH) = name_depth t"
        using d by simp
      moreover have "[MAX_DEPTH ..< name_depth t] = MAX_DEPTH # [Suc MAX_DEPTH ..< name_depth t]"
        using d by (simp add: upt_conv_Cons)
      ultimately show ?thesis
        by simp
    qed
    have a: "\<forall>i \<in> set [0 ..< MAX_DEPTH]. i < MAX_DEPTH"
      by auto
    have b: "length ([] :: 8 word list) + length [0 ..< MAX_DEPTH] * (NAME_MAX + 1)
        \<le> MAX_DEPTH * (NAME_MAX + 1)"
      by simp
    from render_names_ok [OF a n b] obtain q
      where q: "render_names (name_list t) (namelen t) [0 ..< MAX_DEPTH] [] = Inr q"
      by blast
    have "render_names (name_list t) (namelen t) [0 ..< name_depth t] [] =
        Inl (Name_list_index MAX_DEPTH)"
      unfolding split render_names_append q by simp
    then show ?thesis
      by (simp add: get_current_name_def)
  qed
  show ?thesis
  proof (intro conjI impI)
    assume "MAX_DEPTH < name_depth s \<and> namelen s \<le> NAME_MAX"
    then show "get_current_name s = (Fault (Name_list_index MAX_DEPTH), s)"
      using over by blast
  next
    assume a: "name_depth s = MAX_DEPTH \<and> namelen s \<le> NAME_MAX"
    let ?t = "s\<lparr>name_depth := MAX_DEPTH + 1\<rparr>"
    have "get_current_name ?t = (Fault (Name_list_index MAX_DEPTH), ?t)"
      using a by (intro over) simp_all
    then show "thn (store_name blk p) (thn depth_incr get_current_name) s =
        (Fault (Name_list_index MAX_DEPTH), ?t)"
      using a by (simp add: store_name_def depth_incr_def runs)
  qed
qed

text \<open>
  The theorem at depth 51, and at depth 50 on the second entry of the example root
  directory.
\<close>

theorem get_current_name_overflow_witness:
  "MAX_DEPTH < name_depth (example_loaded\<lparr>name_depth := 51\<rparr>) \<and>
   namelen (example_loaded\<lparr>name_depth := 51\<rparr>) \<le> NAME_MAX \<and>
   fst (get_current_name (example_loaded\<lparr>name_depth := 51\<rparr>)) =
     Fault (Name_list_index MAX_DEPTH) \<and>
   name_depth (example_loaded\<lparr>name_depth := 50\<rparr>) = MAX_DEPTH \<and>
   fst (thn (store_name example_root_dir 2) (thn depth_incr get_current_name)
          (example_loaded\<lparr>name_depth := 50\<rparr>)) = Fault (Name_list_index MAX_DEPTH)"
proof -
  let ?s = "example_loaded\<lparr>name_depth := 51\<rparr>"
  let ?t = "example_loaded\<lparr>name_depth := 50\<rparr>"
  have a: "MAX_DEPTH < name_depth ?s \<and> namelen ?s \<le> NAME_MAX"
    by (simp add: example_loaded_def init_state_def)
  have b: "name_depth ?t = MAX_DEPTH \<and> namelen ?t \<le> NAME_MAX"
    by (simp add: example_loaded_def init_state_def)
  have c: "get_current_name ?s = (Fault (Name_list_index MAX_DEPTH), ?s)"
    using get_current_name_overflow [of ?s] a by blast
  have d: "thn (store_name example_root_dir 2) (thn depth_incr get_current_name) ?t =
      (Fault (Name_list_index MAX_DEPTH), ?t\<lparr>name_depth := MAX_DEPTH + 1\<rparr>)"
    using get_current_name_overflow [of ?t example_root_dir 2] b by blast
  show ?thesis
    using a b by (simp add: c d)
qed

section \<open>Reconciling the zone map with the zone counts\<close>





section \<open>The size of a directory entry\<close>

lemma read_superblock_Ret:
  assumes "read_superblock s = (Ret (), s1)"
  shows "dev s1 = dev s" and "disk s1 = disk s"
    and "dirsize s1 = (if s_magic (dev_super (dev s)) = MINIX_SUPER_MAGIC2
                         \<or> s_magic (dev_super (dev s)) = MINIX2_SUPER_MAGIC2 then 32 else 16)"
    and "namelen s1 = (if s_magic (dev_super (dev s)) = MINIX_SUPER_MAGIC2
                         \<or> s_magic (dev_super (dev s)) = MINIX2_SUPER_MAGIC2 then 30 else 14)"
    and "version2 s1 = (s_magic (dev_super (dev s)) = MINIX2_SUPER_MAGIC
                         \<or> s_magic (dev_super (dev s)) = MINIX2_SUPER_MAGIC2)"
  using assms
  by (auto simp: read_superblock_def runs set_variant_def split: if_splits)

lemma read_block_Ret:
  assumes "read_block nr s = (Ret b, s')"
  shows "b = (if nr = 0 \<or> seek_fails (dev s) (block_offset nr) \<or> read_fails (dev s) (block_offset nr)
              then zero_block else disk s (block_offset nr))"
    and "dirsize s' = dirsize s" and "namelen s' = namelen s" and "version2 s' = version2 s"
proof -
  obtain r t where g: "get_current_name s = (r, t)"
    by (cases "get_current_name s")
  from get_current_name_frame [OF g] obtain cn where t: "t = s\<lparr>current_name := cn\<rparr>"
    by blast
  have "b = (if nr = 0 \<or> seek_fails (dev s) (block_offset nr) \<or> read_fails (dev s) (block_offset nr)
              then zero_block else disk s (block_offset nr)) \<and>
      dirsize s' = dirsize s \<and> namelen s' = namelen s \<and> version2 s' = version2 s"
    using assms g t
    by (cases r) (auto simp: read_block_def read_error_def runs split: if_splits)
  then show "b = (if nr = 0 \<or> seek_fails (dev s) (block_offset nr) \<or> read_fails (dev s) (block_offset nr)
              then zero_block else disk s (block_offset nr))"
    and "dirsize s' = dirsize s" and "namelen s' = namelen s" and "version2 s' = version2 s"
    by simp_all
qed

lemma get_dirsize_Ret:
  assumes g: "get_dirsize s = (Ret (), s')"
    and i: "Inode s = dev_Inode (dev s)" "Inode2 s = dev_Inode2 (dev s)"
  shows "case dirsize_scan (root_dir_block s (version2 s)) of
           None \<Rightarrow> dirsize s' = dirsize s \<and> namelen s' = namelen s
         | Some sz \<Rightarrow> dirsize s' = sz \<and> namelen s' = sz - 2"
    and "version2 s' = version2 s"
proof -
  define z where "z = (if version2 s then i_zone (Inode2 s ROOT_INO) 0
                       else ucast (i_zone (Inode s ROOT_INO) 0))"
  have "\<exists>blk s1. read_block z s = (Ret blk, s1) \<and>
      (case dirsize_scan blk of
         Some sz \<Rightarrow> modify (\<lambda>s. s\<lparr>dirsize := sz, namelen := sz - 2\<rparr>)
       | None \<Rightarrow> ret ()) s1 = (Ret (), s')"
    using g unfolding get_dirsize_def z_def
    by (auto simp: gets_run ret_run Inode_at_def Inode2_at_def
        dest!: bnd_RetE split: if_splits)
  then obtain blk s1 where rb: "read_block z s = (Ret blk, s1)"
    and k: "(case dirsize_scan blk of
         Some sz \<Rightarrow> modify (\<lambda>s. s\<lparr>dirsize := sz, namelen := sz - 2\<rparr>)
       | None \<Rightarrow> ret ()) s1 = (Ret (), s')"
    by blast
  have blk: "blk = root_dir_block s (version2 s)"
    using read_block_Ret(1) [OF rb] i by (simp add: root_dir_block_def z_def Let_def)
  show "case dirsize_scan (root_dir_block s (version2 s)) of
           None \<Rightarrow> dirsize s' = dirsize s \<and> namelen s' = namelen s
         | Some sz \<Rightarrow> dirsize s' = sz \<and> namelen s' = sz - 2"
    using k read_block_Ret(2,3) [OF rb] unfolding blk
    by (cases "dirsize_scan (root_dir_block s (version2 s))") (auto simp: runs)
  show "version2 s' = version2 s"
    using k read_block_Ret(4) [OF rb]
    by (cases "dirsize_scan blk") (auto simp: runs)
qed

lemma read_tables_Ret:
  assumes "read_tables s = (Ret (), s')"
  shows "case dirsize_scan (root_dir_block s (version2 s)) of
           None \<Rightarrow> dirsize s' = dirsize s \<and> namelen s' = namelen s
         | Some sz \<Rightarrow> dirsize s' = sz \<and> namelen s' = sz - 2"
    and "version2 s' = version2 s"
proof -
  define s1 where "s1 = s\<lparr>inode_map := dev_inode_map (dev s), zone_map := dev_zone_map (dev s),
      Inode := dev_Inode (dev s), Inode2 := dev_Inode2 (dev s)\<rparr>"
  define t where "t = (if NORM_FIRSTZONE s1 = FIRSTZONE s1 then s1
      else s1\<lparr>out := out s1 @ [Print ''Warning: Firstzone != Norm_firstzone''],
             errors_uncorrected := True\<rparr>)"
  define tail where "tail = thn get_dirsize
            (bnd (gets show_opt) (\<lambda>sh.
               if sh then printf ''%ld inodes, %ld blocks, Firstdatazone, Zonesize, Maxsize, state, namelen''
               else ret ()))"
  have w: "bnd (gets (\<lambda>s. (NORM_FIRSTZONE s, FIRSTZONE s))) (\<lambda>(norm, firstzone).
             if norm = firstzone then ret ()
             else thn (printf ''Warning: Firstzone != Norm_firstzone'')
                    (modify (\<lambda>s. s\<lparr>errors_uncorrected := True\<rparr>))) s1 = (Ret (), t)"
    by (simp add: runs t_def)
  have "thn (bnd (gets (\<lambda>s. (NORM_FIRSTZONE s, FIRSTZONE s))) (\<lambda>(norm, firstzone).
             if norm = firstzone then ret ()
             else thn (printf ''Warning: Firstzone != Norm_firstzone'')
                    (modify (\<lambda>s. s\<lparr>errors_uncorrected := True\<rparr>)))) tail s1 = (Ret (), s')"
    using assms unfolding read_tables_def tail_def [symmetric]
    by (simp add: bnd_run gets_run thn_modify die_run s1_def split: if_splits)
  then have "tail t = (Ret (), s')"
    by (simp add: thn_run w)
  then obtain u where g: "get_dirsize t = (Ret (), u)"
    and k: "bnd (gets show_opt) (\<lambda>sh.
               if sh then printf ''%ld inodes, %ld blocks, Firstdatazone, Zonesize, Maxsize, state, namelen''
               else ret ()) u = (Ret (), s')"
    unfolding tail_def by (auto dest!: thn_RetE)
  have c: "dirsize s' = dirsize u" "namelen s' = namelen u" "version2 s' = version2 u"
    using k by (auto simp: runs split: if_splits)
  have a: "Inode t = dev_Inode (dev t)" "Inode2 t = dev_Inode2 (dev t)"
    and b: "dirsize t = dirsize s" "namelen t = namelen s" "version2 t = version2 s"
    and r: "root_dir_block t (version2 t) = root_dir_block s (version2 s)"
    by (auto simp: t_def s1_def root_dir_block_def Let_def)
  show "case dirsize_scan (root_dir_block s (version2 s)) of
           None \<Rightarrow> dirsize s' = dirsize s \<and> namelen s' = namelen s
         | Some sz \<Rightarrow> dirsize s' = sz \<and> namelen s' = sz - 2"
    using get_dirsize_Ret(1) [OF g a] b c r by (simp split: option.splits)
  show "version2 s' = version2 s"
    using get_dirsize_Ret(2) [OF g a] b c by simp
qed

text \<open>
  Claim C7, as amended. \<^verbatim>\<open>read_superblock\<close> sets the size of a directory entry and the
  length of a name from the magic number: 16 and 14 for \<^verbatim>\<open>MINIX_SUPER_MAGIC\<close> and
  \<^verbatim>\<open>MINIX2_SUPER_MAGIC\<close>, 32 and 30 for \<^verbatim>\<open>MINIX_SUPER_MAGIC2\<close> and
  \<^verbatim>\<open>MINIX2_SUPER_MAGIC2\<close>. When \<^verbatim>\<open>read_superblock\<close> and \<^verbatim>\<open>read_tables\<close> have returned
  and the scan of \<^verbatim>\<open>get_dirsize\<close> over the first block of the root directory has found no
  \<^verbatim>\<open>..\<close>, these values stand; when the scan has found one at the size \<^verbatim>\<open>sz\<close>, the
  values are \<^verbatim>\<open>sz\<close> and \<^verbatim>\<open>sz - 2\<close>. No other function assigns \<^verbatim>\<open>dirsize\<close> or
  \<^verbatim>\<open>namelen\<close>.
\<close>

theorem read_tables_dirsize:
  "thn read_superblock read_tables s = (Ret (), s') \<longrightarrow>
     (dirsize_scan (root_dir_block s (version2 s')) = None \<longrightarrow>
        dirsize s' = (if s_magic (dev_super (dev s)) = MINIX_SUPER_MAGIC2
                        \<or> s_magic (dev_super (dev s)) = MINIX2_SUPER_MAGIC2 then 32 else 16) \<and>
        namelen s' = (if s_magic (dev_super (dev s)) = MINIX_SUPER_MAGIC2
                        \<or> s_magic (dev_super (dev s)) = MINIX2_SUPER_MAGIC2 then 30 else 14)) \<and>
     (\<forall>sz. dirsize_scan (root_dir_block s (version2 s')) = Some sz \<longrightarrow>
        dirsize s' = sz \<and> namelen s' = sz - 2)"
proof
  assume "thn read_superblock read_tables s = (Ret (), s')"
  then obtain s1 where a: "read_superblock s = (Ret (), s1)" and b: "read_tables s1 = (Ret (), s')"
    by (auto dest!: thn_RetE)
  have v: "version2 s' = version2 s1"
    by (rule read_tables_Ret(2) [OF b])
  have r: "root_dir_block s1 (version2 s1) = root_dir_block s (version2 s')"
    using read_superblock_Ret(1,2) [OF a] v by (simp add: root_dir_block_def Let_def)
  show "(dirsize_scan (root_dir_block s (version2 s')) = None \<longrightarrow>
        dirsize s' = (if s_magic (dev_super (dev s)) = MINIX_SUPER_MAGIC2
                        \<or> s_magic (dev_super (dev s)) = MINIX2_SUPER_MAGIC2 then 32 else 16) \<and>
        namelen s' = (if s_magic (dev_super (dev s)) = MINIX_SUPER_MAGIC2
                        \<or> s_magic (dev_super (dev s)) = MINIX2_SUPER_MAGIC2 then 30 else 14)) \<and>
     (\<forall>sz. dirsize_scan (root_dir_block s (version2 s')) = Some sz \<longrightarrow>
        dirsize s' = sz \<and> namelen s' = sz - 2)"
    using read_tables_Ret(1) [OF b] read_superblock_Ret(3,4) [OF a] unfolding r
    by (auto split: option.splits)
qed

text \<open>
  Claim C7 as stated fails for the magic number \<^verbatim>\<open>MINIX_SUPER_MAGIC2\<close>: on the example
  image with this magic number and a root directory without a block, the scan finds
  nothing and the values are 32 and 30.
\<close>

theorem read_tables_dirsize_counterexample:
  "s_magic (dev_super example_device_30) = MINIX_SUPER_MAGIC2 \<and>
   dirsize_scan (root_dir_block (init_state example_device_30 []) False) = None \<and>
   fst (thn read_superblock read_tables (init_state example_device_30 [])) = Ret () \<and>
   dirsize (snd (thn read_superblock read_tables (init_state example_device_30 []))) = 32 \<and>
   namelen (snd (thn read_superblock read_tables (init_state example_device_30 []))) = 30"
  by (simp add: run_defs runs example_device_30_def root_dir_block_def)

text \<open>
  The theorem on that image, and on the example image, where the scan finds \<^verbatim>\<open>..\<close> at
  the size 16.
\<close>

theorem read_tables_dirsize_witness:
  "fst (thn read_superblock read_tables (init_state example_device_30 [])) = Ret () \<and>
   dirsize_scan (root_dir_block (init_state example_device_30 []) False) = None \<and>
   dirsize (snd (thn read_superblock read_tables (init_state example_device_30 []))) = 32 \<and>
   namelen (snd (thn read_superblock read_tables (init_state example_device_30 []))) = 30 \<and>
   fst (thn read_superblock read_tables (init_state example_device [])) = Ret () \<and>
   dirsize_scan (root_dir_block (init_state example_device []) False) = Some 16 \<and>
   dirsize (snd (thn read_superblock read_tables (init_state example_device []))) = 16 \<and>
   namelen (snd (thn read_superblock read_tables (init_state example_device []))) = 14"
proof -
  let ?s = "init_state example_device_30 []"
  let ?s' = "snd (thn read_superblock read_tables ?s)"
  let ?t = "init_state example_device []"
  let ?t' = "snd (thn read_superblock read_tables ?t)"
  have r: "fst (thn read_superblock read_tables ?s) = Ret ()" and v: "\<not> version2 ?s'"
    and m: "s_magic (dev_super (dev ?s)) = MINIX_SUPER_MAGIC2"
    and n: "dirsize_scan (root_dir_block ?s False) = None"
    by (simp_all add: run_defs runs example_device_30_def root_dir_block_def)
  have r': "fst (thn read_superblock read_tables ?t) = Ret ()" and v': "\<not> version2 ?t'"
    and n': "dirsize_scan (root_dir_block ?t False) = Some 16"
    by (simp_all add: run_defs runs root_dir_block_def)
  have e: "thn read_superblock read_tables ?s = (Ret (), ?s')"
    using r by (metis prod.collapse)
  have e': "thn read_superblock read_tables ?t = (Ret (), ?t')"
    using r' by (metis prod.collapse)
  have a: "dirsize ?s' = 32 \<and> namelen ?s' = 30"
    using read_tables_dirsize [of ?s ?s'] e n v m by simp
  have b: "dirsize ?t' = 16 \<and> namelen ?t' = 14"
    using read_tables_dirsize [of ?t ?t'] e' n' v' by simp
  show ?thesis
    using r n a r' n' b by blast
qed

section \<open>The exit status of a check that completes\<close>





section \<open>The test that skips the check of a clean file system\<close>

text \<open>
  Claim C2. The claim is what the comments of the source say: \<^verbatim>\<open>-f\<close> forces the check
  of a file system marked valid, and without it such a file system is not checked. The
  code does not do this: \<^verbatim>\<open>force\<close> is initialised to 1 and no option clears it, so that
  after the options are read and \<^verbatim>\<open>read_superblock\<close> has run, however they end,
  \<^verbatim>\<open>force\<close> is set and the test of lines 1337-1339 fails, whatever the state field of
  the super-block and whatever the command line. The check is always run.
\<close>

theorem clean_gate_dead:
  "arguments args (init_state d input) = (r1, s1) \<and> read_superblock s1 = (r2, s2) \<longrightarrow>
     force s2 \<and> \<not> marked_clean s2"
proof
  assume a: "arguments args (init_state d input) = (r1, s1) \<and> read_superblock s1 = (r2, s2)"
  have "force s1"
    using arguments_force [of args "init_state d input" r1 s1] a by (simp add: init_state_def)
  then have "force s2"
    using read_superblock_force [of s1 r2 s2] a by simp
  then show "force s2 \<and> \<not> marked_clean s2"
    by (simp add: marked_clean_def)
qed

text \<open>
  The theorem on the example image, whose super-block has \<^verbatim>\<open>MINIX_VALID_FS\<close> set and
  \<^verbatim>\<open>MINIX_ERROR_FS\<close> clear, with the options \<^verbatim>\<open>-a\<close> and without \<^verbatim>\<open>-f\<close>: the check is
  run and the super-block is written; without options the check is announced as forced
  and run.
\<close>

theorem clean_gate_dead_witness:
  "s_state (dev_super example_device) AND MINIX_VALID_FS \<noteq> 0 \<and>
   s_state (dev_super example_device) AND MINIX_ERROR_FS = 0 \<and>
   \<not> marked_clean (snd (read_superblock (snd (arguments [''-a'', ''dev'']
       (init_state example_device []))))) \<and>
   fst (main (Suc (Suc (Suc (Suc 0)))) [''mfsck'', ''-a'', ''dev''] (init_state example_device []))
     = Ret 0 \<and>
   wlog (snd (main (Suc (Suc (Suc (Suc 0)))) [''mfsck'', ''-a'', ''dev'']
       (init_state example_device []))) = [Super_block] \<and>
   out (snd (main (Suc (Suc (Suc (Suc 0)))) [''mfsck'', ''dev''] (init_state example_device [])))
     = [Print ''Forcing filesystem check on %s.'',
        Print ''%6ld inodes used (%2ld%%) %6ld total'',
        Print ''%6ld  zones used (%2ld%%) %6ld total'',
        Print ''%6d regular files ... %6d files'']"
proof -
  let ?s1 = "snd (arguments [''-a'', ''dev''] (init_state example_device []))"
  let ?s2 = "snd (read_superblock ?s1)"
  have "arguments [''-a'', ''dev''] (init_state example_device []) =
      (fst (arguments [''-a'', ''dev''] (init_state example_device [])), ?s1) \<and>
      read_superblock ?s1 = (fst (read_superblock ?s1), ?s2)"
    by simp
  from clean_gate_dead [THEN mp, OF this] have g: "\<not> marked_clean ?s2"
    by blast
  have v: "s_state (dev_super example_device) AND MINIX_VALID_FS \<noteq> 0 \<and>
      s_state (dev_super example_device) AND MINIX_ERROR_FS = 0"
    by (simp add: example_device_def example_super_def)
  have a: "fst (main (Suc (Suc (Suc (Suc 0)))) [''mfsck'', ''-a'', ''dev'']
      (init_state example_device [])) = Ret 0"
    by (simp add: run_defs runs upt_conv_Cons)
  have b: "wlog (snd (main (Suc (Suc (Suc (Suc 0)))) [''mfsck'', ''-a'', ''dev'']
       (init_state example_device []))) = [Super_block]"
    by (simp add: run_defs runs upt_conv_Cons)
  have c: "out (snd (main (Suc (Suc (Suc (Suc 0)))) [''mfsck'', ''dev''] (init_state example_device [])))
     = [Print ''Forcing filesystem check on %s.'',
        Print ''%6ld inodes used (%2ld%%) %6ld total'',
        Print ''%6ld  zones used (%2ld%%) %6ld total'',
        Print ''%6d regular files ... %6d files'']"
    by (simp add: run_defs runs upt_conv_Cons)
  show ?thesis
    using g v a b c by blast
qed

end
